theory Spec2Isabelle
  imports
    Main
    "HOL-Library.Sublist"
    "HOL-Library.AList"
    "HOL-Library.Multiset"
begin

section \<open>Strings\<close>

text \<open>
  A JavaScript string is modelled as a \<^typ>\<open>string\<close>. The character classes are the ASCII
  ones: \<open>[A-Z]\<close>, \<open>\d\<close> = \<open>[0-9]\<close>, and for \<open>\s\<close> and \<open>trim\<close> the blank, tab,
  line feed, vertical tab, form feed and carriage return. \<open>toLowerCase\<close> maps \<open>A\<close>..\<open>Z\<close>
  to \<open>a\<close>..\<open>z\<close> and leaves every other character alone. Characters beyond ASCII
  (the non-breaking space, accented capitals) are outside this model.
\<close>

definition is_upper :: "char \<Rightarrow> bool" where
  "is_upper c \<longleftrightarrow> c \<in> set ''ABCDEFGHIJKLMNOPQRSTUVWXYZ''"

definition is_digit :: "char \<Rightarrow> bool" where
  "is_digit c \<longleftrightarrow> c \<in> set ''0123456789''"

definition is_space :: "char \<Rightarrow> bool" where
  "is_space c \<longleftrightarrow> c \<in> set [CHR '' '', CHR 0x09, CHR 0x0A, CHR 0x0B, CHR 0x0C, CHR 0x0D]"

definition lower_char :: "char \<Rightarrow> char" where
  "lower_char c =
     (case map_of (zip ''ABCDEFGHIJKLMNOPQRSTUVWXYZ'' ''abcdefghijklmnopqrstuvwxyz'') c of
        Some l \<Rightarrow> l
      | None \<Rightarrow> c)"

definition toLowerCase :: "string \<Rightarrow> string" where
  "toLowerCase s = map lower_char s"

definition trim :: "string \<Rightarrow> string" where
  "trim s = rev (dropWhile is_space (rev (dropWhile is_space s)))"

text \<open>\<open>hay.includes(needle)\<close>: the needle occurs in the hay as a contiguous run.\<close>

definition str_includes :: "string \<Rightarrow> string \<Rightarrow> bool" where
  "str_includes hay needle \<longleftrightarrow> sublist needle hay"


section \<open>Pathway templates\<close>

text \<open>
  A JavaScript number is identified with its decimal rendering, the string that
  \<open>String(n)\<close> returns (\<open>120\<close>, \<open>-1.5\<close>, \<open>1e+21\<close>); the pipeline only copies numbers,
  tests them for truth and renders them, and no arithmetic is done on them.
\<close>

type_synonym number = string

record course_slot =
  name :: string
  credits :: number

datatype semester_tag = fall_semester | spring_semester | summer_semester

record semester =
  semester_name :: semester_tag
  semester_credits :: number
  courses :: "course_slot list"

record year =
  year_number :: number
  semesters :: "semester list"

record PathwayTemplate =
  program_name :: string
  institution :: string
  total_credits :: number
  years :: "year list"


section \<open>Template matcher\<close>

text \<open>
  \<open>findMatchingPathway\<close>: three loops over the catalog, each returning at its first hit.
  The first compares the lower-cased and trimmed template name; the second and the third
  use the lower-cased template name as it is, untrimmed.
\<close>

definition findMatchingPathway :: "string \<Rightarrow> PathwayTemplate list \<Rightarrow> PathwayTemplate option" where
  "findMatchingPathway programName templates =
     (let normalized = trim (toLowerCase programName) in
      case find (\<lambda>template. trim (toLowerCase (program_name template)) = normalized) templates of
        Some template \<Rightarrow> Some template
      | None \<Rightarrow>
          (case find (\<lambda>template. str_includes (toLowerCase (program_name template)) normalized)
                  templates of
             Some template \<Rightarrow> Some template
           | None \<Rightarrow>
               find (\<lambda>template. str_includes normalized (toLowerCase (program_name template)))
                 templates))"


section \<open>Course reference resolver\<close>

text \<open>
  The pattern \<open>([A-Z]+)\s+(\d+[A-Z]*)\<close> tried at the head of a string. The three
  character classes are disjoint, so the greedy runs are the only way to match: a
  non-empty run of capitals, a non-empty run of blanks, a non-empty run of digits, then
  the capitals that follow.
\<close>

definition match_course_code :: "string \<Rightarrow> string option" where
  "match_course_code s =
     (let letters = takeWhile is_upper s; s1 = dropWhile is_upper s;
          blanks = takeWhile is_space s1; s2 = dropWhile is_space s1;
          digits = takeWhile is_digit s2; s3 = dropWhile is_digit s2;
          tail = takeWhile is_upper s3
      in if letters \<noteq> [] \<and> blanks \<noteq> [] \<and> digits \<noteq> []
         then Some (letters @ blanks @ digits @ tail)
         else None)"

text \<open>
  \<open>name.match(/.../g)\<close>: every match, left to right, the search resuming where the
  previous match ended. No match at all (\<open>null\<close> in the source) is the empty list.
\<close>

function match_all :: "string \<Rightarrow> string list" where
  "match_all [] = []"
| "match_all (c # cs) =
     (case match_course_code (c # cs) of
        Some m \<Rightarrow> m # match_all (drop (length m) (c # cs))
      | None \<Rightarrow> match_all cs)"
  by pat_completeness auto
termination
  by (relation "measure length")
     (auto simp: match_course_code_def Let_def split: if_splits)

text \<open>A \<open>Set\<close> keeps its members in insertion order; \<open>add\<close> of a member changes nothing.\<close>

definition Set_add :: "'a list \<Rightarrow> 'a \<Rightarrow> 'a list" where
  "Set_add s x = (if x \<in> set s then s else s @ [x])"

definition extractPathwayCourses :: "PathwayTemplate \<Rightarrow> string list" where
  "extractPathwayCourses pathwayTemplate =
     fold (\<lambda>year.
        fold (\<lambda>semester.
          fold (\<lambda>course.
            fold (\<lambda>m courseCodes. Set_add courseCodes (trim m)) (match_all (name course)))
            (courses semester))
          (semesters year))
       (years pathwayTemplate) []"

text \<open>The slot names of a template, in tree order.\<close>

definition slot_names :: "PathwayTemplate \<Rightarrow> string list" where
  "slot_names t =
     concat (map (\<lambda>y. concat (map (\<lambda>s. map name (courses s)) (semesters y))) (years t))"

text \<open>
  The anchored pattern \<open>^([A-Z]+)\s+(\d+[A-Z]*)$\<close> of the catalog lookup, with its two
  groups.
\<close>

definition parse_course_code :: "string \<Rightarrow> (string \<times> string) option" where
  "parse_course_code code =
     (let letters = takeWhile is_upper code; s1 = dropWhile is_upper code;
          blanks = takeWhile is_space s1; s2 = dropWhile is_space s1;
          digits = takeWhile is_digit s2; s3 = dropWhile is_digit s2;
          tail = takeWhile is_upper s3; s4 = dropWhile is_upper s3
      in if letters \<noteq> [] \<and> blanks \<noteq> [] \<and> digits \<noteq> [] \<and> s4 = []
         then Some (letters, digits @ tail)
         else None)"

datatype error =
    ProfileNotFound
  | MissingRequiredFields
  | CampusNotFound
  | NoJsonFound
  | JsonSyntaxError
  | TypeError
  | QueryFault

text \<open>
  Modelled from the spec: the store's schema (\<open>app/db/schema\<close>) is not among the sources.
  A course catalog entry is keyed by campus, prefix and number and carries a title, a
  description and a unit count; the description may be absent.
\<close>

record course_row =
  campusId :: string
  coursePrefix :: string
  courseNumber :: string
  courseTitle :: string
  courseDesc :: "string option"
  numUnits :: number

record course_info =
  code :: string
  title :: string
  description :: "string option"
  units :: number

text \<open>
  The catalog as one invocation sees it: its rows, and for the \<open>k\<close>-th query of the
  lookup loop whether that query raises.
\<close>

record catalog =
  course_table :: "course_row list"
  course_query_fails :: "nat \<Rightarrow> bool"

definition select_courses :: "catalog \<Rightarrow> nat \<Rightarrow> string \<Rightarrow> error + course_row list" where
  "select_courses cat k cid =
     (if course_query_fails cat k then Inl QueryFault
      else Inr (take 1000 (filter (\<lambda>c. campusId c = cid) (course_table cat))))"

text \<open>The rest of the \<open>try\<close> block: filter the rows in memory, \<open>courseMap.set\<close> each match.\<close>

definition store_matches ::
  "course_row list \<Rightarrow> string \<times> string \<Rightarrow> (string \<times> course_info) list \<Rightarrow> (string \<times> course_info) list"
where
  "store_matches rows query courseMap =
     fold (\<lambda>c m.
        let key = coursePrefix c @ '' '' @ courseNumber c
        in AList.update key
             \<lparr>code = key, title = courseTitle c, description = courseDesc c, units = numUnits c\<rparr>
             m)
       (filter (\<lambda>c. coursePrefix c = fst query \<and> courseNumber c = snd query) rows)
       courseMap"

text \<open>
  The lookup loop. The body of the \<open>try\<close> either raises or yields the extended map; the
  \<open>catch\<close> logs and goes on with the map as it was.
\<close>

fun query_loop ::
  "catalog \<Rightarrow> string \<Rightarrow> nat \<Rightarrow> (string \<times> string) list \<Rightarrow> (string \<times> course_info) list
     \<Rightarrow> error + (string \<times> course_info) list"
where
  "query_loop cat cid k [] courseMap = Inr courseMap"
| "query_loop cat cid k (query # rest) courseMap =
     (case (case select_courses cat k cid of
              Inl e \<Rightarrow> Inl e
            | Inr rows \<Rightarrow> Inr (store_matches rows query courseMap)) of
        Inl e \<Rightarrow> query_loop cat cid (Suc k) rest courseMap
      | Inr courseMap' \<Rightarrow> query_loop cat cid (Suc k) rest courseMap')"

definition getPathwayCoursesFromDB ::
  "catalog \<Rightarrow> string list \<Rightarrow> string \<Rightarrow> error + (string \<times> course_info) list"
where
  "getPathwayCoursesFromDB cat courseCodes cid =
     (if courseCodes = [] then Inr []
      else
        let courseQueries = List.map_filter parse_course_code courseCodes
        in if courseQueries = [] then Inr [] else query_loop cat cid 0 courseQueries [])"

text \<open>The queries of a list that do not raise, \<open>k\<close> being the position of the first.\<close>

fun answered :: "catalog \<Rightarrow> nat \<Rightarrow> 'a list \<Rightarrow> 'a list" where
  "answered cat k [] = []"
| "answered cat k (q # qs) =
     (if course_query_fails cat k then answered cat (Suc k) qs
      else q # answered cat (Suc k) qs)"


section \<open>JavaScript values\<close>

text \<open>
  The values \<open>JSON.parse\<close> builds, and \<open>undefined\<close>. An object is the list of its entries;
  \<open>JSON.parse\<close> never yields a key twice.
\<close>

datatype jsval =
    JUndefined
  | JNull
  | JBool bool
  | JNum number
  | JStr string
  | JArr "jsval list"
  | JObj "(string \<times> jsval) list"

fun truthy :: "jsval \<Rightarrow> bool" where
  "truthy JUndefined = False"
| "truthy JNull = False"
| "truthy (JBool b) = b"
| "truthy (JNum n) = (n \<noteq> ''0'' \<and> n \<noteq> ''NaN'')"
| "truthy (JStr s) = (s \<noteq> [])"
| "truthy (JArr xs) = True"
| "truthy (JObj kvs) = True"

text \<open>\<open>a || b\<close>\<close>

definition or_else :: "jsval \<Rightarrow> jsval \<Rightarrow> jsval" where
  "or_else a b = (if truthy a then a else b)"

text \<open>
  Reading a property of a value that is neither \<open>null\<close> nor \<open>undefined\<close>. The names the
  pipeline reads (\<open>years\<close>, \<open>semesters\<close>, \<open>activities\<close>, \<open>milestones\<close>, \<open>text\<close>,
  \<open>program_name\<close>, \<open>institution\<close>, \<open>total_credits\<close>) are on no prototype, so the
  result is the own property or \<open>undefined\<close>.
\<close>

fun get_prop :: "jsval \<Rightarrow> string \<Rightarrow> jsval" where
  "get_prop (JObj kvs) k = (case map_of kvs k of Some v \<Rightarrow> v | None \<Rightarrow> JUndefined)"
| "get_prop v k = JUndefined"

fun join :: "string \<Rightarrow> string list \<Rightarrow> string" where
  "join sep [] = []"
| "join sep [x] = x"
| "join sep (x # y # ys) = x @ sep @ join sep (y # ys)"

text \<open>
  \<open>String(v)\<close>; \<open>None\<close> is the TypeError that it raises for an object whose own
  \<open>toString\<close> entry hides the inherited method (no JSON value is callable, and the
  inherited \<open>valueOf\<close> returns the object itself). An array is its elements joined by
  commas, \<open>null\<close> and \<open>undefined\<close> elements rendered empty.
\<close>

fun to_String :: "jsval \<Rightarrow> string option" where
  "to_String JUndefined = Some ''undefined''"
| "to_String JNull = Some ''null''"
| "to_String (JBool b) = Some (if b then ''true'' else ''false'')"
| "to_String (JNum n) = Some n"
| "to_String (JStr s) = Some s"
| "to_String (JArr xs) =
     map_option (join '','')
       (those (map (\<lambda>x. if x = JNull \<or> x = JUndefined then Some [] else to_String x) xs))"
| "to_String (JObj kvs) =
     (if ''toString'' \<in> fst ` set kvs then None else Some ''[object Object]'')"


section \<open>Roadmap synthesizer\<close>

text \<open>
  The callback of \<open>map\<close> in \<open>normalizeStringArray\<close>: a string is kept, a value with a
  string \<open>text\<close> gives that text, anything else goes through \<open>String\<close>.
\<close>

definition entry_string :: "jsval \<Rightarrow> string option" where
  "entry_string it =
     (case it of
        JStr s \<Rightarrow> Some s
      | _ \<Rightarrow>
         (case (if truthy it then get_prop it ''text'' else JUndefined) of
            JStr t \<Rightarrow> Some t
          | _ \<Rightarrow> to_String it))"

text \<open>
  \<open>normalizeStringArray\<close>; \<open>None\<close> is \<open>undefined\<close>. A value that is not an array has no
  \<open>map\<close> to call, and that TypeError, like one raised by \<open>String\<close>, ends in the
  \<open>catch\<close>.
\<close>

definition normalizeStringArray :: "jsval \<Rightarrow> string list option" where
  "normalizeStringArray arr =
     (if \<not> truthy arr then None
      else
        (case arr of
           JArr its \<Rightarrow>
             (case those (map entry_string its) of
                None \<Rightarrow> None
              | Some ss \<Rightarrow> Some (filter (\<lambda>s. 0 < length (trim s)) ss))
         | _ \<Rightarrow> None))"

text \<open>\<open>normalizeStringArray(v) || []\<close>, as the array that is stored.\<close>

definition normalized_or_empty :: "jsval \<Rightarrow> jsval" where
  "normalized_or_empty v =
     (case normalizeStringArray v of Some ss \<Rightarrow> JArr (map JStr ss) | None \<Rightarrow> JArr [])"

text \<open>
  The body of the inner loop, on one element \<open>s\<close> of a semesters list. The module is
  strict code: reading a property of \<open>null\<close> raises, and so does assigning a property to
  a number, a boolean or a string. An array accepts the two assignments, but named
  properties of an array are no part of its JSON value, so it stays as it is.
\<close>

definition normalize_semester :: "jsval \<Rightarrow> error + jsval" where
  "normalize_semester s =
     (case s of
        JObj kvs \<Rightarrow>
          (let kvs1 = AList.update ''activities'' (normalized_or_empty (get_prop (JObj kvs) ''activities'')) kvs;
               kvs2 = AList.update ''milestones'' (normalized_or_empty (get_prop (JObj kvs1) ''milestones'')) kvs1
           in Inr (JObj kvs2))
      | JArr xs \<Rightarrow> Inr (JArr xs)
      | _ \<Rightarrow> Inl TypeError)"

text \<open>A \<open>for\<close> loop whose body may raise: it stops at the first error.\<close>

fun traverse :: "('a \<Rightarrow> error + 'b) \<Rightarrow> 'a list \<Rightarrow> error + 'b list" where
  "traverse f [] = Inr []"
| "traverse f (x # xs) =
     (case f x of
        Inl e \<Rightarrow> Inl e
      | Inr y \<Rightarrow> (case traverse f xs of Inl e \<Rightarrow> Inl e | Inr ys \<Rightarrow> Inr (y # ys)))"

text \<open>
  What \<open>for (const s of y.semesters || [])\<close> runs over: the elements of an array, the
  characters of a non-empty string, nothing for a falsy value; any other value is not
  iterable.
\<close>

definition semesters_of :: "jsval \<Rightarrow> error + jsval list" where
  "semesters_of y =
     (if y = JNull \<or> y = JUndefined then Inl TypeError
      else
        (let v = get_prop y ''semesters''
         in if \<not> truthy v then Inr []
            else (case v of
                    JArr ss \<Rightarrow> Inr ss
                  | JStr cs \<Rightarrow> Inr (map (\<lambda>c. JStr [c]) cs)
                  | _ \<Rightarrow> Inl TypeError)))"

text \<open>
  The body of the outer loop on one year. The semesters are changed in place, which for a
  parsed tree (it shares nothing) is the year with its semesters list rewritten.
\<close>

definition normalize_year :: "jsval \<Rightarrow> error + jsval" where
  "normalize_year y =
     (case semesters_of y of
        Inl e \<Rightarrow> Inl e
      | Inr ss \<Rightarrow>
          (case traverse normalize_semester ss of
             Inl e \<Rightarrow> Inl e
           | Inr ss' \<Rightarrow>
               Inr (case y of
                      JObj kvs \<Rightarrow>
                        (case map_of kvs ''semesters'' of
                           Some (JArr _) \<Rightarrow> JObj (AList.update ''semesters'' (JArr ss') kvs)
                         | _ \<Rightarrow> y)
                    | _ \<Rightarrow> y)))"

text \<open>
  The pattern \<open>\{[\s\S]*\}\<close> on the response: from the first opening brace that has a
  closing brace after it, greedily to the last closing brace of the text.
\<close>

definition jsonMatch :: "string \<Rightarrow> string option" where
  "jsonMatch text =
     (case dropWhile (\<lambda>c. c \<noteq> CHR ''{'') text of
        [] \<Rightarrow> None
      | c # rest \<Rightarrow>
          if CHR ''}'' \<in> set rest
          then Some (c # rev (dropWhile (\<lambda>c. c \<noteq> CHR ''}'') (rev rest)))
          else None)"

text \<open>
  What the prompt is built from. The instruction text around these pieces is constant and
  left out.
\<close>

record prompt =
  prompt_program :: string
  prompt_career :: string
  prompt_interests :: string
  prompt_skills :: string
  prompt_courses :: string
  prompt_template :: PathwayTemplate

text \<open>
  Modelled from the spec: the profile and campus tables of the store's schema
  (\<open>app/db/schema\<close>), which is not among the sources. A profile has \<open>college\<close>,
  \<open>program\<close>, \<open>career\<close>, \<open>interests\<close>, \<open>skills\<close>, a nullable roadmap document and a
  modification timestamp; a campus has an id, a name and aliases. \<open>None\<close> is a column
  that is \<open>null\<close>.
\<close>

record profile_row =
  profile_id :: int
  college :: "string option"
  program :: "string option"
  career :: "string option"
  interests :: "string list option"
  skills :: "string list option"
  roadmap :: "jsval option"
  updatedAt :: nat

record campus_row =
  campus_id :: string
  campus_name :: string
  aliases :: "string list option"

text \<open>\<open>x || 'Not specified'\<close> on a nullable string.\<close>

definition or_not_specified :: "string option \<Rightarrow> string" where
  "or_not_specified x =
     (case x of None \<Rightarrow> ''Not specified'' | Some s \<Rightarrow> if s = [] then ''Not specified'' else s)"

definition course_list :: "(string \<times> course_info) list \<Rightarrow> string" where
  "course_list courseData =
     join [CHR 0x0A, CHR 0x0A]
       (map (\<lambda>c. code c @ '': '' @ title c @
                 (case description c of
                    None \<Rightarrow> []
                  | Some d \<Rightarrow> if d = [] then [] else CHR 0x0A # ''  Description: '' @ d))
          (map snd courseData))"

definition build_prompt ::
  "PathwayTemplate \<Rightarrow> (string \<times> course_info) list \<Rightarrow> profile_row \<Rightarrow> prompt"
where
  "build_prompt pathwayTemplate courseData profileData =
     \<lparr>prompt_program = or_not_specified (program profileData),
      prompt_career = or_not_specified (career profileData),
      prompt_interests = or_not_specified (map_option (join '', '') (interests profileData)),
      prompt_skills = or_not_specified (map_option (join '', '') (skills profileData)),
      prompt_courses =
        (let courseList = course_list courseData
         in if courseList = [] then ''No course data available'' else courseList),
      prompt_template = pathwayTemplate\<rparr>"

text \<open>
  The generative model and the JSON parser are taken as they come: any function from
  prompts to texts, and any partial function from texts to objects (the matched text
  begins with an opening brace, so what \<open>JSON.parse\<close> returns for it is an object, given
  here by its entries; \<open>None\<close> is the SyntaxError).
\<close>

record synthesizer =
  generateText :: "prompt \<Rightarrow> string"
  JSON_parse :: "string \<Rightarrow> (string \<times> jsval) list option"

text \<open>
  The two loops of \<open>processPathwayWithAI\<close> over the parsed response, run when its
  \<open>years\<close> is an array.
\<close>

definition normalize_parsed :: "(string \<times> jsval) list \<Rightarrow> error + (string \<times> jsval) list" where
  "normalize_parsed parsed =
     (case get_prop (JObj parsed) ''years'' of
        JArr ys \<Rightarrow>
          (case traverse normalize_year ys of
             Inl e \<Rightarrow> Inl e
           | Inr ys' \<Rightarrow> Inr (AList.update ''years'' (JArr ys') parsed))
      | _ \<Rightarrow> Inr parsed)"

text \<open>\<open>processPathwayWithAI\<close>: one call to the model, then match, parse and normalize.\<close>

definition processPathwayWithAI ::
  "synthesizer \<Rightarrow> PathwayTemplate \<Rightarrow> (string \<times> course_info) list \<Rightarrow> profile_row
     \<Rightarrow> error + (string \<times> jsval) list"
where
  "processPathwayWithAI ai pathwayTemplate courseData profileData =
     (let text = generateText ai (build_prompt pathwayTemplate courseData profileData)
      in case jsonMatch text of
           None \<Rightarrow> Inl NoJsonFound
         | Some json \<Rightarrow>
             (case JSON_parse ai json of
                None \<Rightarrow> Inl JsonSyntaxError
              | Some parsed \<Rightarrow> normalize_parsed parsed))"


section \<open>Campus lookup\<close>

definition getCampusInfo :: "campus_row list \<Rightarrow> string \<Rightarrow> error + campus_row" where
  "getCampusInfo campus_table campusNameOrId =
     (let campuses = take 1 (filter (\<lambda>c. campus_id c = campusNameOrId) campus_table);
          campuses =
            (if campuses = []
             then filter
                    (\<lambda>c. toLowerCase (campus_name c) = toLowerCase campusNameOrId
                         \<or> (\<exists>alias\<in>set (case aliases c of Some as \<Rightarrow> as | None \<Rightarrow> []).
                               toLowerCase alias = toLowerCase campusNameOrId))
                    campus_table
             else campuses)
      in case campuses of [] \<Rightarrow> Inl CampusNotFound | c # _ \<Rightarrow> Inr c)"


section \<open>Merge and persist\<close>

text \<open>
  What an invocation reads and does not change: the campus table, the course catalog, the
  template catalog as \<open>loadPathwayTemplates\<close> returns it, the model and the parser, and
  the clock that \<open>new Date()\<close> reads.
\<close>

record world =
  campus_table :: "campus_row list"
  courses_db :: catalog
  pathway_templates :: "PathwayTemplate list"
  ai :: synthesizer
  now :: nat

text \<open>What an invocation may change: the profile table; and the count of model calls.\<close>

record store =
  profile_table :: "profile_row list"
  model_calls :: nat

text \<open>\<open>db.update(profile).set({roadmap, updatedAt}).where(eq(profile.id, profileId))\<close>\<close>

definition update_profile :: "int \<Rightarrow> jsval option \<Rightarrow> nat \<Rightarrow> store \<Rightarrow> store" where
  "update_profile profileId r t st =
     st\<lparr>profile_table :=
          map (\<lambda>p. if profile_id p = profileId then p\<lparr>roadmap := r, updatedAt := t\<rparr> else p)
            (profile_table st)\<rparr>"

text \<open>
  The object literal \<open>finalRoadmap\<close>: the six entries written first, overridden by the
  spread of \<open>otherFields\<close> (every entry of the processed roadmap but \<open>years\<close>), then
  \<open>years\<close>.
\<close>

definition finalRoadmap ::
  "(string \<times> jsval) list \<Rightarrow> PathwayTemplate \<Rightarrow> campus_row \<Rightarrow> profile_row \<Rightarrow> jsval"
where
  "finalRoadmap processedRoadmap matchingPathway campusInfo profileData =
     (let years = get_prop (JObj processedRoadmap) ''years'';
          otherFields = AList.delete ''years'' processedRoadmap
      in JObj
           (AList.update ''years'' (or_else years (JArr []))
              (AList.merge
                 [(''program_name'',
                     or_else (get_prop (JObj processedRoadmap) ''program_name'')
                       (JStr (program_name matchingPathway))),
                  (''institution'',
                     or_else (get_prop (JObj processedRoadmap) ''institution'')
                       (JStr (campus_name campusInfo))),
                  (''total_credits'',
                     or_else (get_prop (JObj processedRoadmap) ''total_credits'')
                       (JNum (total_credits matchingPathway))),
                  (''career_goal'',
                     (case career profileData of
                        None \<Rightarrow> JUndefined
                      | Some c \<Rightarrow> if c = [] then JUndefined else JStr c)),
                  (''interests'',
                     (case interests profileData of
                        None \<Rightarrow> JUndefined
                      | Some xs \<Rightarrow> JArr (map JStr xs))),
                  (''skills'',
                     (case skills profileData of
                        None \<Rightarrow> JUndefined
                      | Some xs \<Rightarrow> JArr (map JStr xs)))]
                 otherFields)))"

text \<open>
  \<open>generateAndSaveRoadmap\<close>: the outcome (\<open>Inl\<close> the error thrown, \<open>Inr ()\<close> a normal
  return) and the store afterwards. The call of \<open>processPathwayWithAI\<close> is the one place
  where the model is called, and it is counted there.
\<close>

definition generateAndSaveRoadmap :: "world \<Rightarrow> store \<Rightarrow> int \<Rightarrow> (error + unit) \<times> store" where
  "generateAndSaveRoadmap w st profileId =
     (case take 1 (filter (\<lambda>p. profile_id p = profileId) (profile_table st)) of
        [] \<Rightarrow> (Inl ProfileNotFound, st)
      | profileData # _ \<Rightarrow>
          (case (college profileData, program profileData) of
             (Some profile_college, Some profile_program) \<Rightarrow>
               if profile_college = [] \<or> profile_program = [] then (Inl MissingRequiredFields, st)
               else
                 (case getCampusInfo (campus_table w) profile_college of
                    Inl e \<Rightarrow> (Inl e, st)
                  | Inr campusInfo \<Rightarrow>
                      if campus_id campusInfo \<noteq> ''uh_manoa''
                      then (Inr (), update_profile profileId None (now w) st)
                      else
                        (case findMatchingPathway profile_program (pathway_templates w) of
                           None \<Rightarrow> (Inr (), update_profile profileId None (now w) st)
                         | Some matchingPathway \<Rightarrow>
                             (let pathwayCourses = extractPathwayCourses matchingPathway
                              in case getPathwayCoursesFromDB (courses_db w) pathwayCourses
                                        (campus_id campusInfo) of
                                   Inl e \<Rightarrow> (Inl e, st)
                                 | Inr courseData \<Rightarrow>
                                     (let st' = st\<lparr>model_calls := Suc (model_calls st)\<rparr>
                                      in case processPathwayWithAI (ai w) matchingPathway
                                                courseData profileData of
                                           Inl e \<Rightarrow> (Inl e, st')
                                         | Inr processedRoadmap \<Rightarrow>
                                             (Inr (),
                                              update_profile profileId
                                                (Some (finalRoadmap processedRoadmap
                                                         matchingPathway campusInfo profileData))
                                                (now w) st')))))
           | _ \<Rightarrow> (Inl MissingRequiredFields, st)))"


section \<open>Observations on an invocation\<close>

text \<open>\<open>!x\<close> on a nullable string column: \<open>null\<close> or the empty string.\<close>

definition is_missing :: "string option \<Rightarrow> bool" where
  "is_missing x = (case x of None \<Rightarrow> True | Some s \<Rightarrow> s = [])"

text \<open>
  The invocation for \<open>pid\<close> gets as far as the call of \<open>processPathwayWithAI\<close>: the
  profile \<open>p\<close> is found and has its college and program, the college resolves to the
  campus \<open>ci\<close>, which is the supported one, the program matches the template \<open>t\<close>, and
  the catalog lookup has returned \<open>cd\<close>.
\<close>

definition reaches_synthesis ::
  "world \<Rightarrow> store \<Rightarrow> int \<Rightarrow> profile_row \<Rightarrow> campus_row \<Rightarrow> PathwayTemplate
     \<Rightarrow> (string \<times> course_info) list \<Rightarrow> bool"
where
  "reaches_synthesis w st pid p ci t cd \<longleftrightarrow>
     take 1 (filter (\<lambda>q. profile_id q = pid) (profile_table st)) = [p]
     \<and> (case (college p, program p) of
          (Some c, Some g) \<Rightarrow>
            c \<noteq> [] \<and> g \<noteq> []
            \<and> getCampusInfo (campus_table w) c = Inr ci
            \<and> findMatchingPathway g (pathway_templates w) = Some t
        | _ \<Rightarrow> False)
     \<and> campus_id ci = ''uh_manoa''
     \<and> getPathwayCoursesFromDB (courses_db w) (extractPathwayCourses t) (campus_id ci) = Inr cd"

text \<open>The roadmap documents stored for a profile id.\<close>

definition stored_roadmaps :: "store \<Rightarrow> int \<Rightarrow> jsval option list" where
  "stored_roadmaps st pid = map roadmap (filter (\<lambda>q. profile_id q = pid) (profile_table st))"

text \<open>
  The tree of a roadmap document's \<open>years\<close>: its years, the semesters of a year, the
  course slots of a semester; a value that is not an array counts as no entries.
\<close>

definition elements :: "jsval \<Rightarrow> jsval list" where
  "elements v = (case v of JArr xs \<Rightarrow> xs | _ \<Rightarrow> [])"

definition slot_tree :: "jsval \<Rightarrow> jsval list list list" where
  "slot_tree ys =
     map (\<lambda>y. map (\<lambda>s. elements (get_prop s ''courses'')) (elements (get_prop y ''semesters'')))
       (elements ys)"

text \<open>The numbers of slots, by year and semester, of a roadmap document and of a template.\<close>

definition roadmap_shape :: "jsval \<Rightarrow> nat list list" where
  "roadmap_shape ys = map (map length) (slot_tree ys)"

definition template_shape :: "PathwayTemplate \<Rightarrow> nat list list" where
  "template_shape t = map (\<lambda>y. map (\<lambda>s. length (courses s)) (semesters y)) (years t)"

text \<open>An array of strings none of which is blank.\<close>

definition nonblank_strings :: "jsval \<Rightarrow> bool" where
  "nonblank_strings v =
     (case v of
        JArr xs \<Rightarrow> list_all (\<lambda>x. case x of JStr s \<Rightarrow> trim s \<noteq> [] | _ \<Rightarrow> False) xs
      | _ \<Rightarrow> False)"

fun is_object :: "jsval \<Rightarrow> bool" where
  "is_object (JObj kvs) = True"
| "is_object v = False"


section \<open>Two steps in words\<close>

text \<open>
  The first balanced-brace object substring of a text: from the first opening brace to the
  closing brace that brings the nesting back to where it started.
\<close>

fun balanced_rest :: "nat \<Rightarrow> string \<Rightarrow> string option" where
  "balanced_rest depth [] = None"
| "balanced_rest depth (c # cs) =
     (if c = CHR ''}'' then
        (if depth = 0 then Some [c] else map_option ((#) c) (balanced_rest (depth - 1) cs))
      else if c = CHR ''{'' then map_option ((#) c) (balanced_rest (Suc depth) cs)
      else map_option ((#) c) (balanced_rest depth cs))"

definition first_balanced_object :: "string \<Rightarrow> string option" where
  "first_balanced_object text =
     (case dropWhile (\<lambda>c. c \<noteq> CHR ''{'') text of
        [] \<Rightarrow> None
      | c # rest \<Rightarrow> map_option ((#) c) (balanced_rest 0 rest))"

text \<open>
  Stringification in words, as JavaScript defines \<open>String\<close> on a value built by
  \<open>JSON.parse\<close>: \<open>null\<close> and the booleans give their names, a number its decimal
  rendering, a string itself; an array gives its elements, stringified, with commas
  between them, a \<open>null\<close> element giving nothing; an object gives \<open>[object Object]\<close>,
  unless it has a \<open>toString\<close> entry of its own, and then there is no string (\<open>None\<close>):
  the entry hides the inherited method and is not callable. An array holding such an
  object has no string either.
\<close>

fun stringified :: "jsval \<Rightarrow> string option"
  and comma_joined :: "jsval list \<Rightarrow> string option"
where
  "stringified JUndefined = Some ''undefined''"
| "stringified JNull = Some ''null''"
| "stringified (JBool True) = Some ''true''"
| "stringified (JBool False) = Some ''false''"
| "stringified (JNum n) = Some n"
| "stringified (JStr s) = Some s"
| "stringified (JArr xs) = comma_joined xs"
| "stringified (JObj kvs) =
     (case map_of kvs ''toString'' of
        None \<Rightarrow> Some ''[object Object]''
      | Some own \<Rightarrow> None)"
| "comma_joined [] = Some []"
| "comma_joined (x # xs) =
     (case (if x = JNull \<or> x = JUndefined then Some [] else stringified x) of
        None \<Rightarrow> None
      | Some s \<Rightarrow>
          if xs = [] then Some s
          else (case comma_joined xs of None \<Rightarrow> None | Some rest \<Rightarrow> Some (s @ '','' @ rest)))"

text \<open>
  The coercion of one entry of an \<open>activities\<close> or \<open>milestones\<close> field: a bare string
  is kept, an object carrying a string \<open>text\<close> gives that text, anything else is
  stringified.
\<close>

definition coerced :: "jsval \<Rightarrow> string option" where
  "coerced entry =
     (case entry of
        JStr s \<Rightarrow> Some s
      | JObj kvs \<Rightarrow>
          (case map_of kvs ''text'' of Some (JStr t) \<Rightarrow> Some t | _ \<Rightarrow> stringified entry)
      | _ \<Rightarrow> stringified entry)"

fun coerced_all :: "jsval list \<Rightarrow> string list option" where
  "coerced_all [] = Some []"
| "coerced_all (entry # entries) =
     (case coerced entry of
        None \<Rightarrow> None
      | Some s \<Rightarrow> (case coerced_all entries of None \<Rightarrow> None | Some ss \<Rightarrow> Some (s # ss)))"

text \<open>
  The normalization of a field: when the field is an array and every entry of it can be
  coerced, the coerced entries that are not blank, in their order; the empty list when
  the field is absent, is no array, or holds an entry that has no string.
\<close>

definition normalized_field :: "jsval \<Rightarrow> string list" where
  "normalized_field v =
     (case v of
        JArr entries \<Rightarrow>
          (case coerced_all entries of
             Some ss \<Rightarrow> filter (\<lambda>s. trim s \<noteq> []) ss
           | None \<Rightarrow> [])
      | _ \<Rightarrow> [])"

text \<open>
  A year as the template has it: an object whose \<open>semesters\<close>, when it has any, is an
  array of objects.
\<close>

definition plain_year :: "jsval \<Rightarrow> bool" where
  "plain_year y \<longleftrightarrow>
     is_object y
     \<and> (case get_prop y ''semesters'' of
          JUndefined \<Rightarrow> True
        | JArr ss \<Rightarrow> list_all is_object ss
        | _ \<Rightarrow> False)"

text \<open>
  The semester \<open>s'\<close> carries the normalized fields of the semester \<open>s\<close>, and the year
  \<open>y'\<close> the normalized semesters of the year \<open>y\<close>.
\<close>

definition fields_normalized :: "jsval \<Rightarrow> jsval \<Rightarrow> bool" where
  "fields_normalized s s' \<longleftrightarrow>
     (is_object s \<longrightarrow>
        get_prop s' ''activities'' = JArr (map JStr (normalized_field (get_prop s ''activities'')))
        \<and> get_prop s' ''milestones'' = JArr (map JStr (normalized_field (get_prop s ''milestones''))))"

definition semesters_normalized :: "jsval \<Rightarrow> jsval \<Rightarrow> bool" where
  "semesters_normalized y y' \<longleftrightarrow>
     list_all2 fields_normalized
       (elements (get_prop y ''semesters'')) (elements (get_prop y' ''semesters''))"


section \<open>Example inputs\<close>

text \<open>A catalog entry whose name carries a trailing blank.\<close>

definition padded_template :: PathwayTemplate where
  "padded_template =
     \<lparr>program_name = ''Computer Science '', institution = ''University of Hawaii at Manoa'',
      total_credits = ''120'', years = []\<rparr>"

text \<open>A template of one year: a fall semester with one slot, a spring semester with one.\<close>

definition two_slot_template :: "string \<Rightarrow> string \<Rightarrow> PathwayTemplate" where
  "two_slot_template a b =
     \<lparr>program_name = ''Computer Science, B.S.'', institution = ''University of Hawaii at Manoa'',
      total_credits = ''120'',
      years =
        [\<lparr>year_number = ''1'',
          semesters =
            [\<lparr>semester_name = fall_semester, semester_credits = ''3'',
              courses = [\<lparr>name = a, credits = ''3''\<rparr>]\<rparr>,
             \<lparr>semester_name = spring_semester, semester_credits = ''3'',
              courses = [\<lparr>name = b, credits = ''3''\<rparr>]\<rparr>]\<rparr>]\<rparr>"

text \<open>Three rows of the course catalog.\<close>

definition ics_rows :: "course_row list" where
  "ics_rows =
     [\<lparr>campusId = ''uh_manoa'', coursePrefix = ''ICS'', courseNumber = ''111'',
       courseTitle = ''Introduction to Computer Science I'', courseDesc = None, numUnits = ''4''\<rparr>,
      \<lparr>campusId = ''uh_manoa'', coursePrefix = ''ICS'', courseNumber = ''211'',
       courseTitle = ''Introduction to Computer Science II'', courseDesc = None, numUnits = ''4''\<rparr>,
      \<lparr>campusId = ''uh_manoa'', coursePrefix = ''ICS'', courseNumber = ''311'',
       courseTitle = ''Algorithms'', courseDesc = None, numUnits = ''4''\<rparr>]"

text \<open>
  A store with one profile, which already has a roadmap, and a world of two campuses, the
  three catalog rows and a catalog of one template; the model answers every prompt with
  \<open>reply\<close>, and \<open>parse\<close> stands for \<open>JSON.parse\<close>.
\<close>

definition student :: "string option \<Rightarrow> string option \<Rightarrow> profile_row" where
  "student c g =
     \<lparr>profile_id = 7, college = c, program = g, career = Some ''Software Engineer'',
      interests = Some [''Algorithms''], skills = None,
      roadmap = Some (JObj [(''program_name'', JStr ''Earlier plan'')]), updatedAt = 10\<rparr>"

definition student_store :: "string option \<Rightarrow> string option \<Rightarrow> store" where
  "student_store c g = \<lparr>profile_table = [student c g], model_calls = 0\<rparr>"

definition manoa :: campus_row where
  "manoa = \<lparr>campus_id = ''uh_manoa'', campus_name = ''UH Manoa'', aliases = Some [''Manoa'']\<rparr>"

definition hilo :: campus_row where
  "hilo = \<lparr>campus_id = ''uh_hilo'', campus_name = ''UH Hilo'', aliases = None\<rparr>"

definition cs_template :: PathwayTemplate where
  "cs_template = two_slot_template ''ICS 111'' ''MATH 215 or MATH 241''"

definition campus_world :: "string \<Rightarrow> (string \<Rightarrow> (string \<times> jsval) list option) \<Rightarrow> world" where
  "campus_world reply parse =
     \<lparr>campus_table = [manoa, hilo],
      courses_db = \<lparr>course_table = ics_rows, course_query_fails = (\<lambda>k. False)\<rparr>,
      pathway_templates = [cs_template],
      ai = \<lparr>generateText = (\<lambda>p. reply), JSON_parse = parse\<rparr>,
      now = 20\<rparr>"

definition ics111_info :: "(string \<times> course_info) list" where
  "ics111_info =
     [(''ICS 111'',
        \<lparr>code = ''ICS 111'', title = ''Introduction to Computer Science I'',
         description = None, units = ''4''\<rparr>)]"

text \<open>A reply that holds two objects, and a parser that knows each of them.\<close>

definition two_objects :: string where
  "two_objects = ''Here you go: {\"a\":1} and {\"b\":2}. Done''"

definition parse_single :: "string \<Rightarrow> (string \<times> jsval) list option" where
  "parse_single =
     map_of [(''{\"a\":1}'', [(''a'', JNum ''1'')]), (''{\"b\":2}'', [(''b'', JNum ''2'')])]"

text \<open>A parser that reads one text, as the object given, and rejects every other.\<close>

definition parse_only :: "string \<Rightarrow> (string \<times> jsval) list \<Rightarrow> string \<Rightarrow> (string \<times> jsval) list option" where
  "parse_only text obj = (\<lambda>s. if s = text then Some obj else None)"

text \<open>The profile of the example store, with college and program.\<close>

definition cs_student :: profile_row where
  "cs_student = student (Some ''UH Manoa'') (Some ''Computer Science, B.S.'')"

definition cs_store :: store where
  "cs_store = student_store (Some ''UH Manoa'') (Some ''Computer Science, B.S.'')"

text \<open>A reply with an empty program name, no institution and no years.\<close>

definition reply_no_institution :: string where
  "reply_no_institution = ''{\"program_name\":\"\",\"total_credits\":0}''"

definition parsed_no_institution :: "(string \<times> jsval) list" where
  "parsed_no_institution = [(''program_name'', JStr ''''), (''total_credits'', JNum ''0'')]"

text \<open>A reply without years, and a reply whose tree has one year, one semester, one slot.\<close>

definition reply_no_years :: string where
  "reply_no_years = ''{\"program_name\":\"Computer Science, B.S.\",\"years\":[]}''"

definition parsed_no_years :: "(string \<times> jsval) list" where
  "parsed_no_years = [(''program_name'', JStr ''Computer Science, B.S.''), (''years'', JArr [])]"

definition reply_one_slot :: string where
  "reply_one_slot =
     ''{\"years\":[{\"semesters\":[{\"courses\":[{\"name\":\"ICS 111\"}],\"activities\":[\" Visit the advising office \",{\"text\":\"Join the ACM chapter\"},\"  \"]}]}]}''"

definition parsed_one_slot :: "(string \<times> jsval) list" where
  "parsed_one_slot =
     [(''years'',
        JArr [JObj [(''semesters'',
          JArr [JObj [(''courses'', JArr [JObj [(''name'', JStr ''ICS 111'')]]),
                      (''activities'',
                         JArr [JStr '' Visit the advising office '',
                               JObj [(''text'', JStr ''Join the ACM chapter'')],
                               JStr ''  ''])]])]])]"

text \<open>
  Replies whose \<open>years\<close> is an array: one with a number among the semesters, one
  with an entry that has no string beside a bare string, one with entries of every kind.
\<close>

definition reply_number_semester :: string where
  "reply_number_semester = ''{\"years\":[{\"semesters\":[{\"activities\":[\"a\"]},5]}]}''"

definition parsed_number_semester :: "(string \<times> jsval) list" where
  "parsed_number_semester =
     [(''years'',
        JArr [JObj [(''semesters'',
          JArr [JObj [(''activities'', JArr [JStr ''a''])], JNum ''5''])]])]"

definition reply_unprintable_entry :: string where
  "reply_unprintable_entry =
     ''{\"years\":[{\"semesters\":[{\"activities\":[\"Join a club\",{\"toString\":1}]}]}]}''"

definition parsed_unprintable_entry :: "(string \<times> jsval) list" where
  "parsed_unprintable_entry =
     [(''years'',
        JArr [JObj [(''semesters'',
          JArr [JObj [(''activities'',
                        JArr [JStr ''Join a club'', JObj [(''toString'', JNum ''1'')]])]])]])]"

definition reply_mixed_entries :: string where
  "reply_mixed_entries =
     ''{\"years\":[{\"semesters\":[{\"activities\":[3,null,true,[\"a\",null,1],{},\"Join a club\",{\"text\":\"Meet an advisor\"},\"  \"],\"milestones\":\"none\"}]}]}''"

definition parsed_mixed_entries :: "(string \<times> jsval) list" where
  "parsed_mixed_entries =
     [(''years'',
        JArr [JObj [(''semesters'',
          JArr [JObj [(''activities'',
                        JArr [JNum ''3'', JNull, JBool True,
                              JArr [JStr ''a'', JNull, JNum ''1''], JObj [],
                              JStr ''Join a club'', JObj [(''text'', JStr ''Meet an advisor'')],
                              JStr ''  '']),
                      (''milestones'', JStr ''none'')]])]])]"

text \<open>A reply whose \<open>years\<close> is an object, not an array.\<close>

definition reply_years_object :: string where
  "reply_years_object = ''{\"years\":{\"semesters\":[{\"activities\":[\"  \",7]}]}}''"

definition parsed_years_object :: "(string \<times> jsval) list" where
  "parsed_years_object =
     [(''years'',
        JObj [(''semesters'', JArr [JObj [(''activities'', JArr [JStr ''  '', JNum ''7''])]])])]"


section \<open>Properties of the template matcher\<close>

lemma find_eq_None_iff: "find P xs = None \<longleftrightarrow> (\<forall>x\<in>set xs. \<not> P x)"
  by (induction xs) auto

lemma find_Some_first:
  "find P xs = Some x \<Longrightarrow> \<exists>pre post. xs = pre @ x # post \<and> P x \<and> (\<forall>y\<in>set pre. \<not> P y)"
proof (induction xs)
  case Nil
  then show ?case by simp
next
  case (Cons a xs)
  show ?case
  proof (cases "P a")
    case True
    with Cons.prems have "a # xs = [] @ x # xs \<and> P x \<and> (\<forall>y\<in>set []. \<not> P y)"
      by simp
    then show ?thesis by blast
  next
    case False
    with Cons obtain pre post where "xs = pre @ x # post" "P x" "\<forall>y\<in>set pre. \<not> P y"
      by auto
    with False have "a # xs = (a # pre) @ x # post \<and> P x \<and> (\<forall>y\<in>set (a # pre). \<not> P y)"
      by simp
    then show ?thesis by blast
  qed
qed

text \<open>
  What the code does: a template is returned exactly when some template passes one of the
  three tests as the code writes them.
\<close>

lemma findMatchingPathway_Some_iff:
  "(\<exists>t. findMatchingPathway p ts = Some t) \<longleftrightarrow>
     (\<exists>t\<in>set ts.
        trim (toLowerCase (program_name t)) = trim (toLowerCase p)
        \<or> str_includes (toLowerCase (program_name t)) (trim (toLowerCase p))
        \<or> str_includes (trim (toLowerCase p)) (toLowerCase (program_name t)))"
proof -
  let ?n = "trim (toLowerCase p)"
  let ?P1 = "\<lambda>t. trim (toLowerCase (program_name t)) = ?n"
  let ?P2 = "\<lambda>t. str_includes (toLowerCase (program_name t)) ?n"
  let ?P3 = "\<lambda>t. str_includes ?n (toLowerCase (program_name t))"
  have "(\<exists>t. findMatchingPathway p ts = Some t) \<longleftrightarrow>
          \<not> (find ?P1 ts = None \<and> find ?P2 ts = None \<and> find ?P3 ts = None)"
    by (auto simp: findMatchingPathway_def Let_def split: option.splits)
  then show ?thesis
    unfolding find_eq_None_iff by blast
qed

text \<open>
  Lower-casing keeps the blanks, so it commutes with trimming; over a catalog whose names
  carry no blank at either end the three tests are the tests on the trimmed names.
\<close>

lemma is_space_lower_char: "is_space (lower_char c) = is_space c"
  by (auto simp: is_space_def lower_char_def split: option.splits if_splits)

lemma trim_toLowerCase: "trim (toLowerCase s) = toLowerCase (trim s)"
  by (simp add: trim_def toLowerCase_def dropWhile_map rev_map comp_def is_space_lower_char)

lemma findMatchingPathway_trimmed_catalog:
  assumes "\<forall>t\<in>set ts. trim (program_name t) = program_name t"
  shows "(\<exists>t. findMatchingPathway p ts = Some t) \<longleftrightarrow>
     (\<exists>t\<in>set ts.
        trim (toLowerCase (program_name t)) = trim (toLowerCase p)
        \<or> str_includes (trim (toLowerCase (program_name t))) (trim (toLowerCase p))
        \<or> str_includes (trim (toLowerCase p)) (trim (toLowerCase (program_name t))))"
  using assms by (simp add: findMatchingPathway_Some_iff trim_toLowerCase)

text \<open>
  The template returned is the first of the catalog to pass the first test that any
  template passes.
\<close>

lemma findMatchingPathway_first:
  assumes "findMatchingPathway p ts = Some t"
  shows "\<exists>pre post. ts = pre @ t # post \<and>
     (trim (toLowerCase (program_name t)) = trim (toLowerCase p)
        \<and> (\<forall>u\<in>set pre. trim (toLowerCase (program_name u)) \<noteq> trim (toLowerCase p))
      \<or> (\<forall>u\<in>set ts. trim (toLowerCase (program_name u)) \<noteq> trim (toLowerCase p))
        \<and> str_includes (toLowerCase (program_name t)) (trim (toLowerCase p))
        \<and> (\<forall>u\<in>set pre. \<not> str_includes (toLowerCase (program_name u)) (trim (toLowerCase p)))
      \<or> (\<forall>u\<in>set ts. trim (toLowerCase (program_name u)) \<noteq> trim (toLowerCase p))
        \<and> (\<forall>u\<in>set ts. \<not> str_includes (toLowerCase (program_name u)) (trim (toLowerCase p)))
        \<and> str_includes (trim (toLowerCase p)) (toLowerCase (program_name t))
        \<and> (\<forall>u\<in>set pre. \<not> str_includes (trim (toLowerCase p)) (toLowerCase (program_name u))))"
proof -
  let ?n = "trim (toLowerCase p)"
  let ?P1 = "\<lambda>t. trim (toLowerCase (program_name t)) = ?n"
  let ?P2 = "\<lambda>t. str_includes (toLowerCase (program_name t)) ?n"
  let ?P3 = "\<lambda>t. str_includes ?n (toLowerCase (program_name t))"
  consider (exact) "find ?P1 ts = Some t"
    | (contains) "find ?P1 ts = None" "find ?P2 ts = Some t"
    | (contained) "find ?P1 ts = None" "find ?P2 ts = None" "find ?P3 ts = Some t"
    using assms by (auto simp: findMatchingPathway_def Let_def split: option.splits)
  then show ?thesis
  proof cases
    case exact
    from find_Some_first [OF exact] show ?thesis by blast
  next
    case contains
    from find_Some_first [OF contains(2)] contains(1) show ?thesis
      unfolding find_eq_None_iff by blast
  next
    case contained
    from find_Some_first [OF contained(3)] contained(1,2) show ?thesis
      unfolding find_eq_None_iff by blast
  qed
qed

text \<open>
  A trimmed needle begins and ends with a character that is no blank, so it is found in a
  text exactly when it is found in the trimmed text: the second loop decides what it
  would decide on trimmed template names. The third loop does not.
\<close>

lemma dropWhile_keeps_occurrence:
  assumes "n \<noteq> []" and "\<not> P (hd n)"
  shows "\<exists>ps'. dropWhile P (ps @ n @ ss) = ps' @ n @ ss"
proof (induction ps)
  case Nil
  from assms have "dropWhile P (n @ ss) = [] @ n @ ss"
    by (cases n) auto
  then show ?case by (metis append_Nil)
next
  case (Cons a ps)
  then obtain ps' where ps': "dropWhile P (ps @ n @ ss) = ps' @ n @ ss"
    by blast
  show ?case
  proof (cases "P a")
    case True
    with ps' show ?thesis by auto
  next
    case False
    then have "dropWhile P ((a # ps) @ n @ ss) = (a # ps) @ n @ ss"
      by simp
    then show ?thesis by blast
  qed
qed

lemma trim_ends:
  assumes "trim x \<noteq> []"
  shows "\<not> is_space (hd (trim x))" and "\<not> is_space (last (trim x))"
proof -
  let ?d = "dropWhile is_space x"
  let ?r = "dropWhile is_space (rev ?d)"
  from assms have r: "?r \<noteq> []"
    by (simp add: trim_def)
  then have "\<not> is_space (hd ?r)"
    by (rule hd_dropWhile)
  with r show "\<not> is_space (last (trim x))"
    by (simp add: trim_def last_rev)
  from r have d: "?d \<noteq> []"
    by (metis dropWhile.simps(1) rev.simps(1))
  then have nd: "\<not> is_space (hd ?d)"
    by (rule hd_dropWhile)
  have "hd (trim x) = hd ?d"
  proof -
    obtain a as where das: "?d = a # as"
      using d by (cases ?d) auto
    with nd have na: "\<not> is_space a" by simp
    have "\<exists>ps'. dropWhile is_space (rev as @ [a] @ []) = ps' @ [a] @ []"
      by (rule dropWhile_keeps_occurrence) (simp_all add: na)
    then obtain ps' where "dropWhile is_space (rev ?d) = ps' @ [a]"
      using das by auto
    then have "trim x = a # rev ps'"
      by (simp add: trim_def)
    with das show ?thesis by simp
  qed
  with nd show "\<not> is_space (hd (trim x))"
    by simp
qed

lemma str_includes_trim:
  "str_includes (trim s) (trim x) \<longleftrightarrow> str_includes s (trim x)"
proof (cases "trim x = []")
  case True
  then show ?thesis by (simp add: str_includes_def)
next
  case False
  let ?n = "trim x"
  show ?thesis
  proof
    assume "str_includes (trim s) ?n"
    moreover have "sublist (trim s) s"
      unfolding trim_def
      by (metis sublist_dropWhile sublist_order.order_trans sublist_rev_left rev_rev_ident
          sublist_rev)
    ultimately show "str_includes s ?n"
      unfolding str_includes_def by (rule sublist_order.order_trans)
  next
    assume "str_includes s ?n"
    then obtain ps ss where s: "s = ps @ ?n @ ss"
      by (auto simp: str_includes_def sublist_def)
    from trim_ends [OF False] False
    obtain ps' where 1: "dropWhile is_space s = ps' @ ?n @ ss"
      using dropWhile_keeps_occurrence [of ?n is_space ps ss] s by auto
    from trim_ends [OF False] False
    have "rev ?n \<noteq> []" "\<not> is_space (hd (rev ?n))"
      by (simp_all add: hd_rev)
    with dropWhile_keeps_occurrence [of "rev ?n" is_space "rev ss" "rev ps'"]
    obtain ss' where "dropWhile is_space (rev ss @ rev ?n @ rev ps') = ss' @ rev ?n @ rev ps'"
      by blast
    with 1 have "trim s = ps' @ ?n @ rev ss'"
      by (simp add: trim_def)
    then show "str_includes (trim s) ?n"
      by (simp add: str_includes_def)
  qed
qed

lemma second_loop_as_on_trimmed_names:
  "str_includes (toLowerCase (program_name t)) (trim (toLowerCase p))
     \<longleftrightarrow> str_includes (trim (toLowerCase (program_name t))) (trim (toLowerCase p))"
  by (simp add: str_includes_trim)

text \<open>
  C1. The matcher is claimed to return a template whenever the trimmed, lower-cased name
  of some template is contained in the trimmed, lower-cased program name. For the program
  \<open>Computer Science, B.S.\<close> and a catalog whose only entry is named \<open>Computer Science\<close>
  followed by a blank, the normalized template name is contained in the normalized program
  name, and the matcher returns none: its third loop looks for the untrimmed name.
\<close>

theorem findMatchingPathway_untrimmed_containment:
  "findMatchingPathway ''Computer Science, B.S.'' [padded_template] = None
   \<and> str_includes (trim (toLowerCase ''Computer Science, B.S.''))
        (trim (toLowerCase (program_name padded_template)))"
  by (simp add: findMatchingPathway_def padded_template_def trim_def toLowerCase_def
      lower_char_def is_space_def str_includes_def sublist_code)


section \<open>Properties of the course reference resolver\<close>

lemma set_fold_Set_add:
  "set (fold (\<lambda>m acc. Set_add acc (f m)) ms acc) = set acc \<union> f ` set ms"
  by (induction ms arbitrary: acc) (auto simp: Set_add_def)

lemma distinct_fold_Set_add:
  "distinct acc \<Longrightarrow> distinct (fold (\<lambda>m acc. Set_add acc (f m)) ms acc)"
  by (induction ms arbitrary: acc) (auto simp: Set_add_def)

lemma set_fold_Union:
  assumes "\<And>x acc. set (g x acc) = set acc \<union> F x"
  shows "set (fold g xs acc) = set acc \<union> (\<Union>x\<in>set xs. F x)"
  using assms by (induction xs arbitrary: acc) auto

lemma distinct_fold:
  assumes "\<And>x acc. distinct acc \<Longrightarrow> distinct (g x acc)"
  shows "distinct acc \<Longrightarrow> distinct (fold g xs acc)"
  using assms by (induction xs arbitrary: acc) auto

text \<open>The codes extracted are those matched in some slot name, whatever the slot's place.\<close>

lemma set_extractPathwayCourses:
  "set (extractPathwayCourses t) = (\<Union>n\<in>set (slot_names t). trim ` set (match_all n))"
  unfolding extractPathwayCourses_def slot_names_def
  by (subst set_fold_Union
        [where F = "\<lambda>y. \<Union>s\<in>set (semesters y). \<Union>c\<in>set (courses s). trim ` set (match_all (name c))"],
      subst set_fold_Union
        [where F = "\<lambda>s. \<Union>c\<in>set (courses s). trim ` set (match_all (name c))"],
      subst set_fold_Union [where F = "\<lambda>c. trim ` set (match_all (name c))"])
     (auto simp: set_fold_Set_add)

text \<open>No code is listed twice, so the list returned loses nothing when read as a set.\<close>

lemma distinct_extractPathwayCourses: "distinct (extractPathwayCourses t)"
  unfolding extractPathwayCourses_def
  by (intro distinct_fold distinct_fold_Set_add) simp_all

text \<open>
  C9. Extraction is a function of the template and of nothing else (of no profile, no
  campus, no store), so two runs on one template give one result. As a set, its result
  depends only on the multiset of slot names of the template tree: two templates with
  the same slot names, in any order and under any grouping into years and semesters,
  give the same set of codes.
\<close>

theorem extractPathwayCourses_set_of_slot_names:
  assumes "mset (slot_names t1) = mset (slot_names t2)"
  shows "set (extractPathwayCourses t1) = set (extractPathwayCourses t2)"
proof -
  from assms have "set (slot_names t1) = set (slot_names t2)"
    by (rule mset_eq_setD)
  then show ?thesis
    by (simp add: set_extractPathwayCourses)
qed

lemmas course_code_defs =
  match_course_code_def parse_course_code_def is_upper_def is_space_def is_digit_def Let_def

lemma extract_two_slots:
  "extractPathwayCourses (two_slot_template ''ICS 111'' ''MATH 215 or MATH 241'')
     = [''ICS 111'', ''MATH 215'', ''MATH 241'']"
  "extractPathwayCourses (two_slot_template ''MATH 215 or MATH 241'' ''ICS 111'')
     = [''MATH 215'', ''MATH 241'', ''ICS 111'']"
  by (simp_all add: extractPathwayCourses_def two_slot_template_def Set_add_def trim_def
      course_code_defs)

theorem extractPathwayCourses_set_of_slot_names_witness:
  "mset (slot_names (two_slot_template ''ICS 111'' ''MATH 215 or MATH 241''))
     = mset (slot_names (two_slot_template ''MATH 215 or MATH 241'' ''ICS 111''))
   \<and> set (extractPathwayCourses (two_slot_template ''ICS 111'' ''MATH 215 or MATH 241''))
     = set (extractPathwayCourses (two_slot_template ''MATH 215 or MATH 241'' ''ICS 111''))
   \<and> extractPathwayCourses (two_slot_template ''ICS 111'' ''MATH 215 or MATH 241'')
     \<noteq> extractPathwayCourses (two_slot_template ''MATH 215 or MATH 241'' ''ICS 111'')"
proof -
  have names:
    "mset (slot_names (two_slot_template ''ICS 111'' ''MATH 215 or MATH 241''))
       = mset (slot_names (two_slot_template ''MATH 215 or MATH 241'' ''ICS 111''))"
    by (simp add: slot_names_def two_slot_template_def)
  have "extractPathwayCourses (two_slot_template ''ICS 111'' ''MATH 215 or MATH 241'')
          \<noteq> extractPathwayCourses (two_slot_template ''MATH 215 or MATH 241'' ''ICS 111'')"
    by (simp only: extract_two_slots) simp
  with extractPathwayCourses_set_of_slot_names [OF names] names show ?thesis
    by blast
qed

text \<open>
  The lookup loop never ends in an error: it returns the map built from the queries that
  were answered, in their order, and a query that raised leaves no trace in it.
\<close>

lemma query_loop_answered:
  "query_loop cat cid k qs m =
     Inr (fold (store_matches (take 1000 (filter (\<lambda>c. campusId c = cid) (course_table cat))))
            (answered cat k qs) m)"
  by (induction qs arbitrary: k m) (simp_all add: select_courses_def)

lemma getPathwayCoursesFromDB_returns:
  "\<exists>courseData. getPathwayCoursesFromDB cat courseCodes cid = Inr courseData"
  by (simp add: getPathwayCoursesFromDB_def Let_def query_loop_answered)

text \<open>
  C10. Whatever lookups raise, the catalog lookup returns normally, and what it returns is
  the enrichment map of the lookups that did not raise: the well-formed codes are queried
  in order, a query that raises is dropped and the next one is made, and the map is built
  from the rows of the remaining queries alone.
\<close>

theorem getPathwayCoursesFromDB_skips_failed_lookups:
  "getPathwayCoursesFromDB cat courseCodes cid =
     Inr (fold (store_matches (take 1000 (filter (\<lambda>c. campusId c = cid) (course_table cat))))
            (answered cat 0 (List.map_filter parse_course_code courseCodes)) [])"
proof (cases "List.map_filter parse_course_code courseCodes = []")
  case True
  then show ?thesis
    by (simp add: getPathwayCoursesFromDB_def)
next
  case False
  then have "courseCodes \<noteq> []"
    by (auto simp: List.map_filter_simps)
  with False show ?thesis
    by (simp add: getPathwayCoursesFromDB_def query_loop_answered)
qed

text \<open>
  An instance: three codes, the lookup of the second one raising. The first and the third
  are enriched.
\<close>

theorem getPathwayCoursesFromDB_skips_failed_lookups_witness:
  "getPathwayCoursesFromDB
     \<lparr>course_table = ics_rows, course_query_fails = (\<lambda>k. k = 1)\<rparr>
     [''ICS 111'', ''ICS 211'', ''ICS 311''] ''uh_manoa''
   = Inr [(''ICS 111'',
            \<lparr>code = ''ICS 111'', title = ''Introduction to Computer Science I'',
             description = None, units = ''4''\<rparr>),
          (''ICS 311'',
            \<lparr>code = ''ICS 311'', title = ''Algorithms'', description = None, units = ''4''\<rparr>)]"
  by (subst getPathwayCoursesFromDB_skips_failed_lookups)
     (simp add: List.map_filter_simps course_code_defs store_matches_def ics_rows_def)


section \<open>Properties of the normalization loops\<close>

lemma traverse_Inr_all2:
  "traverse f xs = Inr ys \<Longrightarrow> list_all2 (\<lambda>x y. f x = Inr y) xs ys"
  by (induction xs arbitrary: ys) (auto split: sum.splits)

lemma traverse_total:
  "(\<And>x. x \<in> set xs \<Longrightarrow> \<exists>y. f x = Inr y) \<Longrightarrow> \<exists>ys. traverse f xs = Inr ys"
proof (induction xs)
  case Nil
  then show ?case by simp
next
  case (Cons x xs)
  then obtain y ys where "f x = Inr y" "traverse f xs = Inr ys"
    by (metis list.set_intros(1) list.set_intros(2))
  then show ?case by simp
qed

lemma normalize_semester_object:
  "normalize_semester (JObj kvs) = Inr s' \<Longrightarrow>
     \<exists>kvs'. s' = JObj kvs'
       \<and> map_of kvs' = (map_of kvs)
            (''activities'' \<mapsto> normalized_or_empty (get_prop (JObj kvs) ''activities''),
             ''milestones'' \<mapsto> normalized_or_empty (get_prop (JObj kvs) ''milestones''))"
  by (auto simp: normalize_semester_def Let_def update_conv')

lemma normalize_semester_object_returns: "\<exists>s'. normalize_semester (JObj kvs) = Inr s'"
  by (simp add: normalize_semester_def Let_def)

lemma normalize_semester_courses:
  "normalize_semester s = Inr s' \<Longrightarrow> get_prop s' ''courses'' = get_prop s ''courses''"
  by (cases s) (auto simp: normalize_semester_def Let_def update_conv')

lemma semesters_of_elements:
  "semesters_of y = Inr ss \<Longrightarrow> traverse normalize_semester ss = Inr ss' \<Longrightarrow>
     ss = elements (get_prop y ''semesters'')"
  by (cases "get_prop y ''semesters''")
     (auto simp: semesters_of_def elements_def Let_def normalize_semester_def neq_Nil_conv
       split: if_splits)

lemma normalize_year_semesters:
  assumes "normalize_year y = Inr y'"
  shows "list_all2 (\<lambda>s s'. normalize_semester s = Inr s')
           (elements (get_prop y ''semesters'')) (elements (get_prop y' ''semesters''))"
proof -
  from assms obtain ss ss' where ss: "semesters_of y = Inr ss"
    and ss': "traverse normalize_semester ss = Inr ss'"
    and y': "y' = (case y of
                     JObj kvs \<Rightarrow>
                       (case map_of kvs ''semesters'' of
                          Some (JArr _) \<Rightarrow> JObj (AList.update ''semesters'' (JArr ss') kvs)
                        | _ \<Rightarrow> y)
                   | _ \<Rightarrow> y)"
    by (auto simp: normalize_year_def split: sum.splits)
  from ss ss' have el: "ss = elements (get_prop y ''semesters'')"
    by (rule semesters_of_elements)
  from ss' have rel: "list_all2 (\<lambda>s s'. normalize_semester s = Inr s') ss ss'"
    by (rule traverse_Inr_all2)
  show ?thesis
  proof (cases "\<exists>xs. get_prop y ''semesters'' = JArr xs")
    case True
    then obtain kvs xs where "y = JObj kvs" "map_of kvs ''semesters'' = Some (JArr xs)"
      by (cases y) (auto split: option.splits)
    with y' have "elements (get_prop y' ''semesters'') = ss'"
      by (simp add: elements_def update_conv')
    with rel el show ?thesis by simp
  next
    case False
    then have "y' = y"
      using y' by (cases y) (auto split: option.splits jsval.splits)
    moreover from False have "elements (get_prop y ''semesters'') = []"
      by (cases "get_prop y ''semesters''") (auto simp: elements_def)
    ultimately show ?thesis by simp
  qed
qed

lemma normalize_parsed_years:
  assumes "normalize_parsed parsed = Inr r"
  shows "list_all2 (\<lambda>y y'. normalize_year y = Inr y')
           (elements (get_prop (JObj parsed) ''years'')) (elements (get_prop (JObj r) ''years''))"
proof (cases "\<exists>ys. get_prop (JObj parsed) ''years'' = JArr ys")
  case True
  then obtain ys where ys: "get_prop (JObj parsed) ''years'' = JArr ys"
    by blast
  with assms obtain ys' where "traverse normalize_year ys = Inr ys'"
    "r = AList.update ''years'' (JArr ys') parsed"
    by (auto simp: normalize_parsed_def split: sum.splits)
  with ys show ?thesis
    by (auto simp: elements_def update_conv' dest: traverse_Inr_all2)
next
  case False
  with assms have "r = parsed"
    by (auto simp: normalize_parsed_def split: jsval.splits)
  moreover from False have "elements (get_prop (JObj parsed) ''years'') = []"
    by (cases "get_prop (JObj parsed) ''years''") (auto simp: elements_def)
  ultimately show ?thesis by simp
qed

lemma normalize_parsed_other_fields:
  assumes "normalize_parsed parsed = Inr r" and "k \<noteq> ''years''"
  shows "map_of r k = map_of parsed k"
  using assms
  by (auto simp: normalize_parsed_def update_conv' split: jsval.splits sum.splits)

lemma normalize_parsed_years_kind:
  assumes "normalize_parsed parsed = Inr r"
  shows "(\<exists>ys. get_prop (JObj parsed) ''years'' = JArr ys) \<and> (\<exists>ys'. get_prop (JObj r) ''years'' = JArr ys')
         \<or> get_prop (JObj r) ''years'' = get_prop (JObj parsed) ''years''"
  using assms
  by (auto simp: normalize_parsed_def update_conv' split: jsval.splits sum.splits)

text \<open>The loops leave the course slots of every semester as they were.\<close>

lemma list_all2_map_eq:
  "list_all2 R xs ys \<Longrightarrow> (\<And>x y. R x y \<Longrightarrow> f x = g y) \<Longrightarrow> map f xs = map g ys"
  by (induction rule: list_all2_induct) auto

lemma normalize_year_slots:
  assumes "normalize_year y = Inr y'"
  shows "map (\<lambda>s. elements (get_prop s ''courses'')) (elements (get_prop y' ''semesters''))
           = map (\<lambda>s. elements (get_prop s ''courses'')) (elements (get_prop y ''semesters''))"
  by (rule list_all2_map_eq [OF normalize_year_semesters [OF assms], symmetric])
     (simp add: normalize_semester_courses)

lemma normalize_parsed_slot_tree:
  assumes "normalize_parsed parsed = Inr r"
  shows "slot_tree (get_prop (JObj r) ''years'') = slot_tree (get_prop (JObj parsed) ''years'')"
  unfolding slot_tree_def
  by (rule list_all2_map_eq [OF normalize_parsed_years [OF assms], symmetric])
     (simp add: normalize_year_slots)

lemma slot_tree_or_else: "slot_tree (or_else v (JArr [])) = slot_tree v"
  by (cases v) (simp_all add: or_else_def slot_tree_def elements_def)

text \<open>
  What the loops write into a semester object: for each of the two fields, an array of
  strings, none of them blank.
\<close>

lemma list_all2_setD2:
  "list_all2 R xs ys \<Longrightarrow> y \<in> set ys \<Longrightarrow> \<exists>x\<in>set xs. R x y"
  by (induction rule: list_all2_induct) auto

lemma list_all2_weaken:
  "list_all2 R xs ys \<Longrightarrow> (\<And>x y. R x y \<Longrightarrow> Q x y) \<Longrightarrow> list_all2 Q xs ys"
  by (induction rule: list_all2_induct) auto

lemma nonblank_strings_normalized_or_empty: "nonblank_strings (normalized_or_empty v)"
  by (auto simp: nonblank_strings_def normalized_or_empty_def normalizeStringArray_def
      list_all_iff split: option.splits jsval.splits)

lemma normalize_semester_nonblank:
  assumes "normalize_semester s = Inr s'" and "is_object s'"
  shows "nonblank_strings (get_prop s' ''activities'')
         \<and> nonblank_strings (get_prop s' ''milestones'')"
proof -
  from assms obtain kvs where s: "s = JObj kvs"
    by (cases s) (auto simp: normalize_semester_def)
  from normalize_semester_object [OF assms(1) [unfolded s]] show ?thesis
    by (auto simp: nonblank_strings_normalized_or_empty)
qed

text \<open>
  The code's \<open>String\<close> is the stringification in words, its map callback the coercion,
  and what it stores in a field the normalization of the field.
\<close>

lemma those_length: "those zs = Some ys \<Longrightarrow> length ys = length zs"
  by (induction zs arbitrary: ys) (auto split: option.splits)

lemma to_String_stringified:
  "to_String v = stringified v"
  "map_option (join '','')
     (those (map (\<lambda>x. if x = JNull \<or> x = JUndefined then Some [] else to_String x) xs))
     = comma_joined xs"
proof (induction v and xs rule: stringified_comma_joined.induct)
  case (8 kvs)
  then show ?case
    by (cases "map_of kvs ''toString''")
       (simp_all add: map_of_eq_None_iff [symmetric])
next
  case (10 x xs)
  let ?f = "\<lambda>x. if x = JNull \<or> x = JUndefined then Some [] else to_String x"
  have fx: "(if x = JNull \<or> x = JUndefined then Some [] else stringified x) = ?f x"
    using "10.IH"(1) by simp
  show ?case
  proof (cases "?f x")
    case None
    then show ?thesis
      by (simp add: fx)
  next
    case (Some s)
    show ?thesis
    proof (cases "xs = []")
      case True
      with Some show ?thesis
        by (simp add: fx)
    next
      case False
      from "10.IH"(2) [OF Some [folded fx] False]
      have ih: "map_option (join '','') (those (map ?f xs)) = comma_joined xs" .
      show ?thesis
      proof (cases "those (map ?f xs)")
        case None
        with Some False show ?thesis
          by (simp add: fx ih [symmetric])
      next
        case (Some ys)
        with False have "ys \<noteq> []"
          by (auto dest: those_length)
        then obtain y ys' where "ys = y # ys'"
          by (cases ys) auto
        with Some \<open>?f x = Some s\<close> False show ?thesis
          by (simp add: fx ih [symmetric])
      qed
    qed
  qed
qed simp_all

lemma entry_string_coerced: "entry_string = coerced"
proof
  fix it
  show "entry_string it = coerced it"
    by (cases it)
       (auto simp: entry_string_def coerced_def to_String_stringified(1)
         split: option.splits jsval.splits)
qed

lemma those_map_coerced: "those (map coerced entries) = coerced_all entries"
  by (induction entries) (auto split: option.splits)

lemma normalized_or_empty_field: "normalized_or_empty v = JArr (map JStr (normalized_field v))"
  by (cases v)
     (auto simp: normalized_or_empty_def normalizeStringArray_def normalized_field_def
       entry_string_coerced those_map_coerced split: option.splits)

lemma normalize_semester_spec:
  assumes "normalize_semester s = Inr s'"
  shows "fields_normalized s s'"
proof (cases s)
  case (JObj kvs)
  from normalize_semester_object [OF assms [unfolded JObj]] JObj show ?thesis
    by (auto simp: fields_normalized_def normalized_or_empty_field)
qed (simp_all add: fields_normalized_def)

lemma normalize_year_spec:
  assumes "normalize_year y = Inr y'"
  shows "semesters_normalized y y'"
  unfolding semesters_normalized_def
  by (rule list_all2_weaken [OF normalize_year_semesters [OF assms]])
     (rule normalize_semester_spec)

lemma plain_year_returns:
  assumes "plain_year y"
  shows "\<exists>y'. normalize_year y = Inr y'"
proof -
  from assms obtain ss where ss: "semesters_of y = Inr ss" "list_all is_object ss"
    by (cases y; cases "get_prop y ''semesters''")
       (auto simp: plain_year_def semesters_of_def)
  have "\<exists>s'. normalize_semester s = Inr s'" if "s \<in> set ss" for s
  proof -
    from that ss(2) have "is_object s"
      by (simp add: list_all_iff)
    then obtain kvs where "s = JObj kvs"
      by (cases s) auto
    then show ?thesis
      by (simp add: normalize_semester_object_returns)
  qed
  then obtain ss' where "traverse normalize_semester ss = Inr ss'"
    using traverse_total by blast
  with ss(1) show ?thesis
    by (simp add: normalize_year_def)
qed

lemma plain_years_return:
  assumes "get_prop (JObj parsed) ''years'' = JArr ys" and "list_all plain_year ys"
  shows "\<exists>r. normalize_parsed parsed = Inr r"
proof -
  from assms(2) have "\<exists>y'. normalize_year y = Inr y'" if "y \<in> set ys" for y
    using that by (simp add: list_all_iff plain_year_returns)
  then obtain ys' where "traverse normalize_year ys = Inr ys'"
    using traverse_total by blast
  with assms(1) show ?thesis
    by (simp add: normalize_parsed_def)
qed


section \<open>Properties of the response parsing\<close>

lemma jsonMatch_span:
  assumes "CHR ''{'' \<notin> set pre" and "CHR ''}'' \<notin> set post"
  shows "jsonMatch (pre @ CHR ''{'' # mid @ CHR ''}'' # post) = Some (CHR ''{'' # mid @ [CHR ''}''])"
proof -
  have "dropWhile (\<lambda>c. c \<noteq> CHR ''{'') (pre @ CHR ''{'' # mid @ CHR ''}'' # post)
          = CHR ''{'' # mid @ CHR ''}'' # post"
    using assms(1) by (auto simp: dropWhile_append3)
  moreover have "dropWhile (\<lambda>c. c \<noteq> CHR ''}'') (rev post @ CHR ''}'' # rev mid) = CHR ''}'' # rev mid"
    using assms(2) by (auto simp: dropWhile_append3)
  ultimately show ?thesis
    by (simp add: jsonMatch_def)
qed

lemma jsonMatch_Some_iff:
  "(\<exists>j. jsonMatch reply = Some j) \<longleftrightarrow>
     (\<exists>pre mid post. reply = pre @ CHR ''{'' # mid @ CHR ''}'' # post)"
proof
  assume "\<exists>j. jsonMatch reply = Some j"
  then obtain c rest where dw: "dropWhile (\<lambda>c. c \<noteq> CHR ''{'') reply = c # rest"
    and closing: "CHR ''}'' \<in> set rest"
    by (auto simp: jsonMatch_def split: list.splits if_splits)
  from dw have "c = CHR ''{''"
    using hd_dropWhile [of "\<lambda>c. c \<noteq> CHR ''{''" reply] by simp
  moreover from closing obtain mid post where "rest = mid @ CHR ''}'' # post"
    by (auto dest: split_list)
  moreover have "reply = takeWhile (\<lambda>c. c \<noteq> CHR ''{'') reply @ dropWhile (\<lambda>c. c \<noteq> CHR ''{'') reply"
    by simp
  ultimately have "reply = takeWhile (\<lambda>c. c \<noteq> CHR ''{'') reply @ CHR ''{'' # mid @ CHR ''}'' # post"
    using dw by simp
  then show "\<exists>pre mid post. reply = pre @ CHR ''{'' # mid @ CHR ''}'' # post"
    by blast
next
  assume "\<exists>pre mid post. reply = pre @ CHR ''{'' # mid @ CHR ''}'' # post"
  then obtain pre mid post where reply: "reply = pre @ CHR ''{'' # mid @ CHR ''}'' # post"
    by blast
  then have "CHR ''{'' \<in> set reply"
    by simp
  then obtain pre' rest where first: "reply = pre' @ CHR ''{'' # rest" "CHR ''{'' \<notin> set pre'"
    by (auto dest: split_list_first)
  from reply first have "CHR ''}'' \<in> set rest"
    by (auto simp: append_eq_append_conv2 append_eq_Cons_conv Cons_eq_append_conv)
  then obtain mid' post' where "rest = mid' @ CHR ''}'' # post'" "CHR ''}'' \<notin> set post'"
    by (auto dest: split_list_last)
  with first jsonMatch_span [of pre' post' mid'] show "\<exists>j. jsonMatch reply = Some j"
    by auto
qed

lemma two_objects_match: "jsonMatch two_objects = Some ''{\"a\":1} and {\"b\":2}''"
  by (simp add: jsonMatch_def two_objects_def)

lemma two_objects_first: "first_balanced_object two_objects = Some ''{\"a\":1}''"
  by (simp add: first_balanced_object_def two_objects_def)

text \<open>
  C8 as stated fails. The reply \<open>two_objects\<close> holds two complete objects. Its first
  balanced-brace object is the first of them, which the parser accepts; what the
  synthesizer hands to the parser is the span from the first opening brace to the last
  closing brace, both objects and the words between them, and the run ends in the parse
  error.
\<close>

theorem processPathwayWithAI_two_objects:
  "jsonMatch two_objects = Some ''{\"a\":1} and {\"b\":2}''
   \<and> first_balanced_object two_objects = Some ''{\"a\":1}''
   \<and> parse_single ''{\"a\":1}'' = Some [(''a'', JNum ''1'')]
   \<and> processPathwayWithAI \<lparr>generateText = (\<lambda>p. two_objects), JSON_parse = parse_single\<rparr>
         cs_template ics111_info (student (Some ''UH Manoa'') (Some ''Computer Science, B.S.''))
       = Inl JsonSyntaxError"
  by (simp add: two_objects_match two_objects_first processPathwayWithAI_def parse_single_def)

text \<open>
  C8, amended. For every reply that has an opening brace with a closing brace somewhere
  after it, the synthesizer parses the substring that runs from the first opening brace
  of the reply to its last closing brace, and nothing else of the reply.
\<close>

theorem processPathwayWithAI_parses_outer_span:
  assumes "generateText syn (build_prompt t cd p) = pre @ CHR ''{'' # mid @ CHR ''}'' # post"
    and "CHR ''{'' \<notin> set pre"
    and "CHR ''}'' \<notin> set post"
  shows "jsonMatch (generateText syn (build_prompt t cd p)) = Some (CHR ''{'' # mid @ [CHR ''}''])
         \<and> processPathwayWithAI syn t cd p =
             (case JSON_parse syn (CHR ''{'' # mid @ [CHR ''}'']) of
                None \<Rightarrow> Inl JsonSyntaxError
              | Some parsed \<Rightarrow> normalize_parsed parsed)"
  using assms by (simp add: processPathwayWithAI_def jsonMatch_span)

theorem processPathwayWithAI_parses_outer_span_witness:
  "two_objects = ''Here you go: '' @ CHR ''{'' # ''\"a\":1} and {\"b\":2'' @ CHR ''}'' # ''. Done''
   \<and> CHR ''{'' \<notin> set ''Here you go: ''
   \<and> CHR ''}'' \<notin> set ''. Done''
   \<and> processPathwayWithAI \<lparr>generateText = (\<lambda>p. two_objects), JSON_parse = Map.empty\<rparr>
         cs_template ics111_info (student (Some ''UH Manoa'') (Some ''Computer Science, B.S.''))
       = Inl JsonSyntaxError"
proof -
  let ?ai = "\<lparr>generateText = (\<lambda>p. two_objects), JSON_parse = Map.empty\<rparr>"
  let ?p = "student (Some ''UH Manoa'') (Some ''Computer Science, B.S.'')"
  have a: "generateText ?ai (build_prompt cs_template ics111_info ?p)
             = ''Here you go: '' @ CHR ''{'' # ''\"a\":1} and {\"b\":2'' @ CHR ''}'' # ''. Done''"
    by (simp add: two_objects_def)
  have b: "CHR ''{'' \<notin> set ''Here you go: ''" by simp
  have c: "CHR ''}'' \<notin> set ''. Done''" by simp
  from processPathwayWithAI_parses_outer_span [OF a b c] a b c show ?thesis
    by (simp add: two_objects_def)
qed


section \<open>Properties of an invocation\<close>

text \<open>
  An invocation that reaches the synthesis persists nothing before it: it makes the model
  call and then either passes on the error of \<open>processPathwayWithAI\<close> or writes the
  final roadmap.
\<close>

lemma generateAndSaveRoadmap_synthesis:
  assumes "reaches_synthesis w st pid p ci t cd"
  shows "generateAndSaveRoadmap w st pid =
           (case processPathwayWithAI (ai w) t cd p of
              Inl e \<Rightarrow> (Inl e, st\<lparr>model_calls := Suc (model_calls st)\<rparr>)
            | Inr r \<Rightarrow>
                (Inr (),
                 update_profile pid (Some (finalRoadmap r t ci p)) (now w)
                   (st\<lparr>model_calls := Suc (model_calls st)\<rparr>)))"
  using assms
  by (auto simp: reaches_synthesis_def generateAndSaveRoadmap_def Let_def
      split: option.splits sum.splits)

lemma reaches_synthesis_example:
  "reaches_synthesis (campus_world reply parse)
     (student_store (Some ''UH Manoa'') (Some ''Computer Science, B.S.'')) 7
     (student (Some ''UH Manoa'') (Some ''Computer Science, B.S.'')) manoa cs_template ics111_info"
  apply (simp add: reaches_synthesis_def campus_world_def student_store_def student_def)
  apply (intro conjI)
  subgoal by (simp add: getCampusInfo_def manoa_def hilo_def toLowerCase_def lower_char_def)
  subgoal by (simp add: findMatchingPathway_def cs_template_def two_slot_template_def trim_def toLowerCase_def
      lower_char_def is_space_def)
  subgoal by (simp add: manoa_def)
  subgoal by (simp add: cs_template_def extract_two_slots manoa_def getPathwayCoursesFromDB_def List.map_filter_simps course_code_defs
      select_courses_def store_matches_def ics_rows_def ics111_info_def)
  done

text \<open>An invocation that throws has written nothing.\<close>

lemma generateAndSaveRoadmap_error_leaves_table:
  assumes "fst (generateAndSaveRoadmap w st pid) = Inl e"
  shows "profile_table (snd (generateAndSaveRoadmap w st pid)) = profile_table st"
  using assms
  by (auto simp: generateAndSaveRoadmap_def Let_def
      split: list.splits option.splits sum.splits if_splits)

lemma student_lookup:
  "take 1 (filter (\<lambda>q. profile_id q = 7) (profile_table (student_store c g))) = [student c g]"
  by (simp add: student_store_def student_def)

lemma campus_world_parts:
  "ai (campus_world reply parse) = \<lparr>generateText = (\<lambda>p. reply), JSON_parse = parse\<rparr>"
  "now (campus_world reply parse) = 20"
  "pathway_templates (campus_world reply parse) = [cs_template]"
  by (simp_all add: campus_world_def)

text \<open>
  The top-level entries of the document that is written. An entry of the processed
  roadmap wins over the fallback written before the spread, whatever its value.
\<close>

lemma finalRoadmap_program_name:
  "get_prop (finalRoadmap r t ci p) ''program_name'' =
     (case map_of r ''program_name'' of Some v \<Rightarrow> v | None \<Rightarrow> JStr (program_name t))"
  by (simp add: finalRoadmap_def Let_def update_conv' merge_conv' delete_conv' map_add_def
      or_else_def split: option.splits)

lemma finalRoadmap_institution:
  "get_prop (finalRoadmap r t ci p) ''institution'' =
     (case map_of r ''institution'' of Some v \<Rightarrow> v | None \<Rightarrow> JStr (campus_name ci))"
  by (simp add: finalRoadmap_def Let_def update_conv' merge_conv' delete_conv' map_add_def
      or_else_def split: option.splits)

lemma finalRoadmap_total_credits:
  "get_prop (finalRoadmap r t ci p) ''total_credits'' =
     (case map_of r ''total_credits'' of Some v \<Rightarrow> v | None \<Rightarrow> JNum (total_credits t))"
  by (simp add: finalRoadmap_def Let_def update_conv' merge_conv' delete_conv' map_add_def
      or_else_def split: option.splits)

lemma finalRoadmap_years:
  "get_prop (finalRoadmap r t ci p) ''years'' = or_else (get_prop (JObj r) ''years'') (JArr [])"
  by (simp add: finalRoadmap_def Let_def update_conv')

text \<open>
  A successful synthesis writes one document to every row of the profile: the final
  roadmap of the normalized response.
\<close>

lemma stored_roadmaps_update_profile:
  "stored_roadmaps (update_profile pid d t st) pid
     = map (\<lambda>q. d) (filter (\<lambda>q. profile_id q = pid) (profile_table st))"
  by (induction "profile_table st" arbitrary: st)
     (auto simp: stored_roadmaps_def update_profile_def filter_map comp_def)

lemma generateAndSaveRoadmap_success:
  assumes "reaches_synthesis w st pid p ci t cd"
    and "jsonMatch (generateText (ai w) (build_prompt t cd p)) = Some json"
    and "JSON_parse (ai w) json = Some parsed"
    and "fst (generateAndSaveRoadmap w st pid) = Inr ()"
  shows "\<exists>r. normalize_parsed parsed = Inr r
           \<and> set (stored_roadmaps (snd (generateAndSaveRoadmap w st pid)) pid)
               = {Some (finalRoadmap r t ci p)}"
proof -
  from assms(2,3) have proc: "processPathwayWithAI (ai w) t cd p = normalize_parsed parsed"
    by (simp add: processPathwayWithAI_def)
  from assms(1) have "filter (\<lambda>q. profile_id q = pid) (profile_table st) \<noteq> []"
    by (auto simp: reaches_synthesis_def)
  then have ne: "set (map (\<lambda>q. d) (filter (\<lambda>q. profile_id q = pid) (profile_table st))) = {d}" for d :: "jsval option"
    by (cases "filter (\<lambda>q. profile_id q = pid) (profile_table st)") auto
  show ?thesis
  proof (cases "normalize_parsed parsed")
    case (Inl e)
    with assms(4) generateAndSaveRoadmap_synthesis [OF assms(1)] proc show ?thesis
      by simp
  next
    case (Inr r)
    with generateAndSaveRoadmap_synthesis [OF assms(1)] proc
    have "snd (generateAndSaveRoadmap w st pid)
            = update_profile pid (Some (finalRoadmap r t ci p)) (now w)
                (st\<lparr>model_calls := Suc (model_calls st)\<rparr>)"
      by simp
    then have "stored_roadmaps (snd (generateAndSaveRoadmap w st pid)) pid
                 = map (\<lambda>q. Some (finalRoadmap r t ci p))
                     (filter (\<lambda>q. profile_id q = pid) (profile_table st))"
      by (simp add: stored_roadmaps_update_profile)
    with Inr ne show ?thesis
      by simp
  qed
qed


text \<open>The example store and world: a run whose reply parses and normalizes.\<close>

lemma cs_reaches_synthesis:
  "reaches_synthesis (campus_world reply parse) cs_store 7 cs_student manoa cs_template ics111_info"
  unfolding cs_store_def cs_student_def by (rule reaches_synthesis_example)

lemma cs_run:
  assumes "jsonMatch reply = Some json" and "parse json = Some parsed"
    and "normalize_parsed parsed = Inr r"
  shows "generateAndSaveRoadmap (campus_world reply parse) cs_store 7 =
           (Inr (),
            \<lparr>profile_table =
               [cs_student\<lparr>roadmap := Some (finalRoadmap r cs_template manoa cs_student),
                            updatedAt := 20\<rparr>],
             model_calls = 1\<rparr>)"
proof -
  have "processPathwayWithAI (ai (campus_world reply parse)) cs_template ics111_info cs_student = Inr r"
    using assms by (simp add: processPathwayWithAI_def campus_world_parts)
  then show ?thesis
    by (simp add: generateAndSaveRoadmap_synthesis [OF cs_reaches_synthesis] campus_world_parts)
       (simp add: update_profile_def cs_store_def cs_student_def student_store_def student_def)
qed

text \<open>The example replies: what is matched in them, and what the loops make of one.\<close>

lemma reply_no_institution_match: "jsonMatch reply_no_institution = Some reply_no_institution"
  by (simp add: jsonMatch_def reply_no_institution_def)

lemma reply_no_years_match: "jsonMatch reply_no_years = Some reply_no_years"
  by (simp add: jsonMatch_def reply_no_years_def)

lemma reply_one_slot_match: "jsonMatch reply_one_slot = Some reply_one_slot"
  by (simp add: jsonMatch_def reply_one_slot_def)

lemma normalize_parsed_one_slot:
  "normalize_parsed parsed_one_slot =
     Inr [(''years'',
        JArr [JObj [(''semesters'',
          JArr [JObj [(''courses'', JArr [JObj [(''name'', JStr ''ICS 111'')]]),
                      (''activities'',
                         JArr [JStr '' Visit the advising office '', JStr ''Join the ACM chapter'']),
                      (''milestones'', JArr [])]])]])]"
  by (simp add: normalize_parsed_def parsed_one_slot_def normalize_year_def semesters_of_def
      normalize_semester_def normalized_or_empty_def normalizeStringArray_def entry_string_def
      trim_def is_space_def)

text \<open>
  C2. When the looked-up profile lacks its college or its program, and when the invocation
  reaches the synthesis and the reply of the model has no opening brace followed by a
  closing brace, or has one and the parser rejects the matched text, the operation
  throws, and the profile table is the one from before the call: no roadmap and no
  timestamp has changed.
\<close>

theorem generateAndSaveRoadmap_failure_leaves_store:
  assumes "take 1 (filter (\<lambda>q. profile_id q = pid) (profile_table st)) = [p]"
    and "is_missing (college p) \<or> is_missing (program p)
         \<or> (\<exists>ci t cd. reaches_synthesis w st pid p ci t cd
               \<and> (case jsonMatch (generateText (ai w) (build_prompt t cd p)) of
                     None \<Rightarrow> True
                   | Some json \<Rightarrow> JSON_parse (ai w) json = None))"
  shows "fst (generateAndSaveRoadmap w st pid)
           \<in> {Inl MissingRequiredFields, Inl NoJsonFound, Inl JsonSyntaxError}
         \<and> profile_table (snd (generateAndSaveRoadmap w st pid)) = profile_table st"
proof -
  consider (missing) "is_missing (college p) \<or> is_missing (program p)"
    | (synth) ci t cd where "reaches_synthesis w st pid p ci t cd"
        "case jsonMatch (generateText (ai w) (build_prompt t cd p)) of
           None \<Rightarrow> True
         | Some json \<Rightarrow> JSON_parse (ai w) json = None"
    using assms(2) by blast
  then show ?thesis
  proof cases
    case missing
    with assms(1) show ?thesis
      by (auto simp: generateAndSaveRoadmap_def is_missing_def split: option.splits)
  next
    case synth
    from synth(2) have "processPathwayWithAI (ai w) t cd p \<in> {Inl NoJsonFound, Inl JsonSyntaxError}"
      by (auto simp: processPathwayWithAI_def Let_def split: option.splits)
    with generateAndSaveRoadmap_synthesis [OF synth(1)] show ?thesis
      by auto
  qed
qed

theorem generateAndSaveRoadmap_failure_leaves_store_witness:
  "(is_missing (college (student None (Some ''Computer Science, B.S.'')))
    \<and> fst (generateAndSaveRoadmap (campus_world two_objects parse_single)
              (student_store None (Some ''Computer Science, B.S.'')) 7)
        \<in> {Inl MissingRequiredFields, Inl NoJsonFound, Inl JsonSyntaxError}
    \<and> profile_table
          (snd (generateAndSaveRoadmap (campus_world two_objects parse_single)
                  (student_store None (Some ''Computer Science, B.S.'')) 7))
        = profile_table (student_store None (Some ''Computer Science, B.S.'')))
   \<and> (jsonMatch ''I cannot help with that.'' = None
      \<and> fst (generateAndSaveRoadmap (campus_world ''I cannot help with that.'' parse_single)
                (student_store (Some ''UH Manoa'') (Some ''Computer Science, B.S.'')) 7)
          \<in> {Inl MissingRequiredFields, Inl NoJsonFound, Inl JsonSyntaxError}
      \<and> profile_table
            (snd (generateAndSaveRoadmap (campus_world ''I cannot help with that.'' parse_single)
                    (student_store (Some ''UH Manoa'') (Some ''Computer Science, B.S.'')) 7))
          = profile_table (student_store (Some ''UH Manoa'') (Some ''Computer Science, B.S.'')))
   \<and> (jsonMatch two_objects = Some ''{\"a\":1} and {\"b\":2}''
      \<and> parse_single ''{\"a\":1} and {\"b\":2}'' = None
      \<and> fst (generateAndSaveRoadmap (campus_world two_objects parse_single)
                (student_store (Some ''UH Manoa'') (Some ''Computer Science, B.S.'')) 7)
          \<in> {Inl MissingRequiredFields, Inl NoJsonFound, Inl JsonSyntaxError}
      \<and> profile_table
            (snd (generateAndSaveRoadmap (campus_world two_objects parse_single)
                    (student_store (Some ''UH Manoa'') (Some ''Computer Science, B.S.'')) 7))
          = profile_table (student_store (Some ''UH Manoa'') (Some ''Computer Science, B.S.'')))"
proof -
  let ?g = "Some ''Computer Science, B.S.''"
  let ?ok = "student_store (Some ''UH Manoa'') ?g"
  let ?p = "student (Some ''UH Manoa'') ?g"
  have missing: "is_missing (college (student None ?g))"
    by (simp add: is_missing_def student_def)
  then have "is_missing (college (student None ?g)) \<or> is_missing (program (student None ?g))
         \<or> (\<exists>ci t cd. reaches_synthesis (campus_world two_objects parse_single) (student_store None ?g) 7 (student None ?g) ci t cd
               \<and> (case jsonMatch (generateText (ai (campus_world two_objects parse_single)) (build_prompt t cd (student None ?g))) of
                     None \<Rightarrow> True
                   | Some json \<Rightarrow> JSON_parse (ai (campus_world two_objects parse_single)) json = None))"
    by blast
  note first = generateAndSaveRoadmap_failure_leaves_store [OF student_lookup this]
  have nojson: "jsonMatch ''I cannot help with that.'' = None"
    by (simp add: jsonMatch_def)
  have "is_missing (college ?p) \<or> is_missing (program ?p)
         \<or> (\<exists>ci t cd. reaches_synthesis (campus_world ''I cannot help with that.'' parse_single) ?ok 7 ?p ci t cd
               \<and> (case jsonMatch (generateText (ai (campus_world ''I cannot help with that.'' parse_single)) (build_prompt t cd ?p)) of
                     None \<Rightarrow> True
                   | Some json \<Rightarrow> JSON_parse (ai (campus_world ''I cannot help with that.'' parse_single)) json = None))"
    using reaches_synthesis_example [of "''I cannot help with that.''" parse_single] nojson
    by (auto simp: campus_world_def)
  note second = generateAndSaveRoadmap_failure_leaves_store [OF student_lookup this]
  have span: "jsonMatch two_objects = Some ''{\"a\":1} and {\"b\":2}''"
    by (simp add: jsonMatch_def two_objects_def)
  have rejected: "parse_single ''{\"a\":1} and {\"b\":2}'' = None"
    by (simp add: parse_single_def)
  have "is_missing (college ?p) \<or> is_missing (program ?p)
         \<or> (\<exists>ci t cd. reaches_synthesis (campus_world two_objects parse_single) ?ok 7 ?p ci t cd
               \<and> (case jsonMatch (generateText (ai (campus_world two_objects parse_single)) (build_prompt t cd ?p)) of
                     None \<Rightarrow> True
                   | Some json \<Rightarrow> JSON_parse (ai (campus_world two_objects parse_single)) json = None))"
    using reaches_synthesis_example [of two_objects parse_single] span rejected
    by (auto simp: campus_world_def)
  note third = generateAndSaveRoadmap_failure_leaves_store [OF student_lookup this]
  from missing first nojson second span rejected third show ?thesis
    by blast
qed

text \<open>Which error each of the three runs ends in.\<close>

lemma generateAndSaveRoadmap_failure_examples:
  "fst (generateAndSaveRoadmap (campus_world two_objects parse_single)
          (student_store None (Some ''Computer Science, B.S.'')) 7) = Inl MissingRequiredFields"
  "fst (generateAndSaveRoadmap (campus_world ''I cannot help with that.'' parse_single)
          (student_store (Some ''UH Manoa'') (Some ''Computer Science, B.S.'')) 7) = Inl NoJsonFound"
  "fst (generateAndSaveRoadmap (campus_world two_objects parse_single)
          (student_store (Some ''UH Manoa'') (Some ''Computer Science, B.S.'')) 7) = Inl JsonSyntaxError"
    apply (simp add: generateAndSaveRoadmap_def student_store_def student_def)
   apply (simp add: generateAndSaveRoadmap_synthesis [OF reaches_synthesis_example]
      processPathwayWithAI_def campus_world_parts jsonMatch_def)
  apply (simp add: generateAndSaveRoadmap_synthesis [OF reaches_synthesis_example]
      processPathwayWithAI_def campus_world_parts two_objects_match parse_single_def)
  done

text \<open>
  C6. When the college of the profile resolves to a campus other than \<open>uh_manoa\<close>, and
  when the campus is that one and no template matches the program, the operation returns
  normally, every row of the profile has its roadmap set to null and its timestamp set to
  the time of the call, the other rows are as before, and the model has not been called.
\<close>

theorem generateAndSaveRoadmap_null_roadmap:
  assumes "take 1 (filter (\<lambda>q. profile_id q = pid) (profile_table st)) = [p]"
    and "college p = Some c" and "c \<noteq> []"
    and "program p = Some g" and "g \<noteq> []"
    and "getCampusInfo (campus_table w) c = Inr ci"
    and "campus_id ci \<noteq> ''uh_manoa'' \<or> findMatchingPathway g (pathway_templates w) = None"
  shows "fst (generateAndSaveRoadmap w st pid) = Inr ()
         \<and> profile_table (snd (generateAndSaveRoadmap w st pid)) =
             map (\<lambda>q. if profile_id q = pid then q\<lparr>roadmap := None, updatedAt := now w\<rparr> else q)
               (profile_table st)
         \<and> p\<lparr>roadmap := None, updatedAt := now w\<rparr>
             \<in> set (profile_table (snd (generateAndSaveRoadmap w st pid)))
         \<and> model_calls (snd (generateAndSaveRoadmap w st pid)) = model_calls st"
proof -
  from assms(1) have "p \<in> set (filter (\<lambda>q. profile_id q = pid) (profile_table st))"
    by (metis in_set_takeD list.set_intros(1))
  then have p: "p \<in> set (profile_table st)" "profile_id p = pid"
    by auto
  have "generateAndSaveRoadmap w st pid = (Inr (), update_profile pid None (now w) st)"
    using assms by (auto simp: generateAndSaveRoadmap_def)
  with p show ?thesis
    by (force simp: update_profile_def)
qed

theorem generateAndSaveRoadmap_null_roadmap_witness:
  "(campus_id hilo \<noteq> ''uh_manoa''
    \<and> generateAndSaveRoadmap (campus_world two_objects parse_single)
          (student_store (Some ''uh_hilo'') (Some ''Computer Science, B.S.'')) 7
        = (Inr (),
           \<lparr>profile_table =
              [(student (Some ''uh_hilo'') (Some ''Computer Science, B.S.''))
                 \<lparr>roadmap := None, updatedAt := 20\<rparr>],
            model_calls = 0\<rparr>))
   \<and> (findMatchingPathway ''Marine Biology'' [cs_template] = None
      \<and> generateAndSaveRoadmap (campus_world two_objects parse_single)
            (student_store (Some ''manoa'') (Some ''Marine Biology'')) 7
          = (Inr (),
             \<lparr>profile_table =
                [(student (Some ''manoa'') (Some ''Marine Biology''))
                   \<lparr>roadmap := None, updatedAt := 20\<rparr>],
              model_calls = 0\<rparr>))"
proof -
  let ?w = "campus_world two_objects parse_single"
  have hilo: "getCampusInfo (campus_table ?w) ''uh_hilo'' = Inr hilo"
    by (simp add: getCampusInfo_def campus_world_def manoa_def hilo_def)
  have unsupported: "campus_id hilo \<noteq> ''uh_manoa''"
    by (simp add: hilo_def)
  have a: "college (student (Some ''uh_hilo'') (Some ''Computer Science, B.S.'')) = Some ''uh_hilo''"
    "program (student (Some ''uh_hilo'') (Some ''Computer Science, B.S.'')) = Some ''Computer Science, B.S.''"
    "''uh_hilo'' \<noteq> []" "''Computer Science, B.S.'' \<noteq> []"
    by (simp_all add: student_def)
  from unsupported
  have "campus_id hilo \<noteq> ''uh_manoa''
        \<or> findMatchingPathway ''Computer Science, B.S.'' (pathway_templates ?w) = None"
    by blast
  note first = generateAndSaveRoadmap_null_roadmap [OF student_lookup a(1) a(3) a(2) a(4) hilo this]
  have manoa: "getCampusInfo (campus_table ?w) ''manoa'' = Inr manoa"
    by (simp add: getCampusInfo_def campus_world_def manoa_def hilo_def toLowerCase_def lower_char_def)
  have nomatch: "findMatchingPathway ''Marine Biology'' [cs_template] = None"
    by (simp add: findMatchingPathway_def cs_template_def two_slot_template_def trim_def
        toLowerCase_def lower_char_def is_space_def str_includes_def sublist_code)
  have b: "college (student (Some ''manoa'') (Some ''Marine Biology'')) = Some ''manoa''"
    "program (student (Some ''manoa'') (Some ''Marine Biology'')) = Some ''Marine Biology''"
    "''manoa'' \<noteq> []" "''Marine Biology'' \<noteq> []"
    by (simp_all add: student_def)
  from nomatch
  have "campus_id manoa \<noteq> ''uh_manoa''
        \<or> findMatchingPathway ''Marine Biology'' (pathway_templates ?w) = None"
    by (simp add: campus_world_def)
  note second = generateAndSaveRoadmap_null_roadmap [OF student_lookup b(1) b(3) b(2) b(4) manoa this]
  have t: "profile_table (student_store c g) = [student c g]" "model_calls (student_store c g) = 0" 
    "profile_id (student c g) = 7" "now ?w = 20" for c g
    by (simp_all add: student_store_def student_def campus_world_def)
  have eq: "x = (Inr (), \<lparr>profile_table = tb, model_calls = 0\<rparr>)"
    if "fst x = Inr ()" "profile_table (snd x) = tb" "model_calls (snd x) = 0" for x :: "(error + unit) \<times> store" and tb
    using that by (cases x) auto
  show ?thesis
    using unsupported nomatch first second
    by (auto simp: t intro!: eq)
qed

text \<open>
  C4 as stated fails for the institution. The reply has no \<open>institution\<close>, the matched
  template has one, and the document written carries the name of the campus, not the
  institution of the template.
\<close>

theorem finalRoadmap_institution_from_campus:
  "fst (generateAndSaveRoadmap
          (campus_world reply_no_institution (parse_only reply_no_institution parsed_no_institution))
          cs_store 7) = Inr ()
   \<and> map (map_option (\<lambda>d. get_prop d ''institution''))
        (stored_roadmaps
           (snd (generateAndSaveRoadmap
                   (campus_world reply_no_institution
                      (parse_only reply_no_institution parsed_no_institution))
                   cs_store 7)) 7)
      = [Some (JStr ''UH Manoa'')]
   \<and> map_of parsed_no_institution ''institution'' = None
   \<and> institution cs_template = ''University of Hawaii at Manoa''"
proof -
  have "normalize_parsed parsed_no_institution = Inr parsed_no_institution"
    by (simp add: normalize_parsed_def parsed_no_institution_def)
  from cs_run [OF reply_no_institution_match _ this, of "parse_only reply_no_institution parsed_no_institution"]
  show ?thesis
    by (simp add: parse_only_def stored_roadmaps_def cs_student_def student_def
        finalRoadmap_institution)
       (simp add: parsed_no_institution_def manoa_def cs_template_def two_slot_template_def)
qed

text \<open>
  C4, amended. After a successful synthesis the document written has, as \<open>program_name\<close>
  and \<open>total_credits\<close>, the entry of the parsed response when the response has one
  (an empty or null one too) and else the value of the matched template; as
  \<open>institution\<close>, the entry of the response when it has one and else the name of the
  resolved campus. The institution of the template is not used.
\<close>

theorem persisted_top_level_fields:
  assumes "reaches_synthesis w st pid p ci t cd"
    and "jsonMatch (generateText (ai w) (build_prompt t cd p)) = Some json"
    and "JSON_parse (ai w) json = Some parsed"
    and "fst (generateAndSaveRoadmap w st pid) = Inr ()"
  shows "\<exists>d. set (stored_roadmaps (snd (generateAndSaveRoadmap w st pid)) pid) = {Some d}
           \<and> get_prop d ''program_name'' =
               (case map_of parsed ''program_name'' of
                  Some v \<Rightarrow> v
                | None \<Rightarrow> JStr (program_name t))
           \<and> get_prop d ''institution'' =
               (case map_of parsed ''institution'' of
                  Some v \<Rightarrow> v
                | None \<Rightarrow> JStr (campus_name ci))
           \<and> get_prop d ''total_credits'' =
               (case map_of parsed ''total_credits'' of
                  Some v \<Rightarrow> v
                | None \<Rightarrow> JNum (total_credits t))"
proof -
  from generateAndSaveRoadmap_success [OF assms] obtain r
    where r: "normalize_parsed parsed = Inr r"
      and stored: "set (stored_roadmaps (snd (generateAndSaveRoadmap w st pid)) pid)
                     = {Some (finalRoadmap r t ci p)}"
    by blast
  have "map_of r ''program_name'' = map_of parsed ''program_name''"
    "map_of r ''institution'' = map_of parsed ''institution''"
    "map_of r ''total_credits'' = map_of parsed ''total_credits''"
    by (simp_all add: normalize_parsed_other_fields [OF r])
  with stored show ?thesis
    by (simp add: finalRoadmap_program_name finalRoadmap_institution finalRoadmap_total_credits)
qed

theorem persisted_top_level_fields_witness:
  "reaches_synthesis
     (campus_world reply_no_institution (parse_only reply_no_institution parsed_no_institution))
     cs_store 7 cs_student manoa cs_template ics111_info
   \<and> jsonMatch reply_no_institution = Some reply_no_institution
   \<and> parse_only reply_no_institution parsed_no_institution reply_no_institution
       = Some parsed_no_institution
   \<and> (\<exists>d. set (stored_roadmaps
                 (snd (generateAndSaveRoadmap
                         (campus_world reply_no_institution
                            (parse_only reply_no_institution parsed_no_institution))
                         cs_store 7)) 7) = {Some d}
          \<and> get_prop d ''program_name'' = JStr ''''
          \<and> get_prop d ''institution'' = JStr ''UH Manoa''
          \<and> get_prop d ''total_credits'' = JNum ''0'')"
proof -
  let ?parse = "parse_only reply_no_institution parsed_no_institution"
  let ?w = "campus_world reply_no_institution ?parse"
  have a: "jsonMatch (generateText (ai ?w) (build_prompt cs_template ics111_info cs_student))
             = Some reply_no_institution"
    by (simp add: campus_world_parts reply_no_institution_match)
  have b: "JSON_parse (ai ?w) reply_no_institution = Some parsed_no_institution"
    by (simp add: campus_world_parts parse_only_def)
  have "normalize_parsed parsed_no_institution = Inr parsed_no_institution"
    by (simp add: normalize_parsed_def parsed_no_institution_def)
  from cs_run [OF reply_no_institution_match _ this, of ?parse]
  have c: "fst (generateAndSaveRoadmap ?w cs_store 7) = Inr ()"
    by (simp add: parse_only_def)
  have vals: "map_of parsed_no_institution ''program_name'' = Some (JStr '''')"
    "map_of parsed_no_institution ''institution'' = None"
    "map_of parsed_no_institution ''total_credits'' = Some (JNum ''0'')"
    "campus_name manoa = ''UH Manoa''"
    by (simp_all add: parsed_no_institution_def manoa_def)
  from persisted_top_level_fields [OF cs_reaches_synthesis a b c] 
  have "\<exists>d. set (stored_roadmaps (snd (generateAndSaveRoadmap ?w cs_store 7)) 7) = {Some d}
          \<and> get_prop d ''program_name'' = JStr ''''
          \<and> get_prop d ''institution'' = JStr ''UH Manoa''
          \<and> get_prop d ''total_credits'' = JNum ''0''"
    by (simp only: vals option.case)
  with cs_reaches_synthesis reply_no_institution_match b show ?thesis
    by (simp add: campus_world_parts)
qed

text \<open>
  C3 as stated fails. The matched template has one year of two semesters with one slot
  each; the reply is accepted and has an empty \<open>years\<close>; the roadmap written has no
  years.
\<close>

theorem persisted_years_not_the_template:
  "fst (generateAndSaveRoadmap (campus_world reply_no_years (parse_only reply_no_years parsed_no_years))
          cs_store 7) = Inr ()
   \<and> map (map_option (\<lambda>d. roadmap_shape (get_prop d ''years'')))
        (stored_roadmaps
           (snd (generateAndSaveRoadmap
                   (campus_world reply_no_years (parse_only reply_no_years parsed_no_years))
                   cs_store 7)) 7)
      = [Some []]
   \<and> template_shape cs_template = [[1, 1]]"
proof -
  have "normalize_parsed parsed_no_years = Inr parsed_no_years"
    by (simp add: normalize_parsed_def parsed_no_years_def)
  from cs_run [OF reply_no_years_match _ this, of "parse_only reply_no_years parsed_no_years"]
  show ?thesis
    by (simp add: parse_only_def stored_roadmaps_def cs_student_def student_def
        finalRoadmap_years)
       (simp add: parsed_no_years_def or_else_def roadmap_shape_def slot_tree_def elements_def
         template_shape_def cs_template_def two_slot_template_def)
qed

text \<open>
  C3, amended. After a successful synthesis the years written are the years of the parsed
  response (none when the response has no array of years): the code neither adds,
  removes nor reorders a year, a semester or a course slot of the response, and it never
  compares the response with the template. The roadmap written has the years, semesters
  and slots of the template when the response of the model has them.
\<close>

theorem persisted_tree_of_response:
  assumes "reaches_synthesis w st pid p ci t cd"
    and "jsonMatch (generateText (ai w) (build_prompt t cd p)) = Some json"
    and "JSON_parse (ai w) json = Some parsed"
    and "fst (generateAndSaveRoadmap w st pid) = Inr ()"
  shows "\<exists>d. set (stored_roadmaps (snd (generateAndSaveRoadmap w st pid)) pid) = {Some d}
           \<and> slot_tree (get_prop d ''years'') = slot_tree (get_prop (JObj parsed) ''years'')
           \<and> roadmap_shape (get_prop d ''years'') = roadmap_shape (get_prop (JObj parsed) ''years'')"
proof -
  from generateAndSaveRoadmap_success [OF assms] obtain r
    where r: "normalize_parsed parsed = Inr r"
      and stored: "set (stored_roadmaps (snd (generateAndSaveRoadmap w st pid)) pid)
                     = {Some (finalRoadmap r t ci p)}"
    by blast
  have "slot_tree (get_prop (finalRoadmap r t ci p) ''years'')
          = slot_tree (get_prop (JObj parsed) ''years'')"
    by (simp only: finalRoadmap_years slot_tree_or_else normalize_parsed_slot_tree [OF r])
  with stored show ?thesis
    by (simp add: roadmap_shape_def)
qed

theorem persisted_tree_of_response_witness:
  "reaches_synthesis (campus_world reply_one_slot (parse_only reply_one_slot parsed_one_slot))
     cs_store 7 cs_student manoa cs_template ics111_info
   \<and> jsonMatch reply_one_slot = Some reply_one_slot
   \<and> parse_only reply_one_slot parsed_one_slot reply_one_slot = Some parsed_one_slot
   \<and> fst (generateAndSaveRoadmap
            (campus_world reply_one_slot (parse_only reply_one_slot parsed_one_slot)) cs_store 7)
       = Inr ()
   \<and> (\<exists>d. set (stored_roadmaps
                 (snd (generateAndSaveRoadmap
                         (campus_world reply_one_slot (parse_only reply_one_slot parsed_one_slot))
                         cs_store 7)) 7) = {Some d}
          \<and> slot_tree (get_prop d ''years'') = [[[JObj [(''name'', JStr ''ICS 111'')]]]]
          \<and> roadmap_shape (get_prop d ''years'') = [[1]])"
proof -
  let ?parse = "parse_only reply_one_slot parsed_one_slot"
  let ?w = "campus_world reply_one_slot ?parse"
  have a: "jsonMatch (generateText (ai ?w) (build_prompt cs_template ics111_info cs_student))
             = Some reply_one_slot"
    by (simp add: campus_world_parts reply_one_slot_match)
  have b: "JSON_parse (ai ?w) reply_one_slot = Some parsed_one_slot"
    by (simp add: campus_world_parts parse_only_def)
  from cs_run [OF reply_one_slot_match _ normalize_parsed_one_slot, of ?parse]
  have c: "fst (generateAndSaveRoadmap ?w cs_store 7) = Inr ()"
    by (simp add: parse_only_def)
  have vals: "slot_tree (get_prop (JObj parsed_one_slot) ''years'') = [[[JObj [(''name'', JStr ''ICS 111'')]]]]"
    "roadmap_shape (get_prop (JObj parsed_one_slot) ''years'') = [[1]]"
    by (simp_all add: parsed_one_slot_def roadmap_shape_def slot_tree_def elements_def)
  from persisted_tree_of_response [OF cs_reaches_synthesis a b c]
  have "\<exists>d. set (stored_roadmaps (snd (generateAndSaveRoadmap ?w cs_store 7)) 7) = {Some d}
          \<and> slot_tree (get_prop d ''years'') = [[[JObj [(''name'', JStr ''ICS 111'')]]]]
          \<and> roadmap_shape (get_prop d ''years'') = [[1]]"
    by (simp only: vals)
  with cs_reaches_synthesis reply_one_slot_match b c show ?thesis
    by (simp add: campus_world_parts)
qed


lemma normalize_parsed_no_array:
  assumes "normalize_parsed parsed = Inr r"
    and "\<forall>ys. get_prop (JObj parsed) ''years'' \<noteq> JArr ys"
  shows "r = parsed"
  using assms by (auto simp: normalize_parsed_def split: jsval.splits)

lemma reply_years_object_match: "jsonMatch reply_years_object = Some reply_years_object"
  by (simp add: jsonMatch_def reply_years_object_def)

lemma normalize_parsed_years_object: "normalize_parsed parsed_years_object = Inr parsed_years_object"
  by (simp add: normalize_parsed_def parsed_years_object_def)

text \<open>
  C5 as stated fails. The reply is accepted; its one semester has three activities, one
  with blanks around it, one an object with a text, one blank, and no milestones. The
  semester written has two activities, the first with its blanks, and no milestone.
\<close>

theorem persisted_fields_may_be_short:
  "fst (generateAndSaveRoadmap
          (campus_world reply_one_slot (parse_only reply_one_slot parsed_one_slot)) cs_store 7)
     = Inr ()
   \<and> map (map_option
           (\<lambda>d. map (\<lambda>y. map (\<lambda>s. (get_prop s ''activities'', get_prop s ''milestones''))
                            (elements (get_prop y ''semesters'')))
                  (elements (get_prop d ''years''))))
        (stored_roadmaps
           (snd (generateAndSaveRoadmap
                   (campus_world reply_one_slot (parse_only reply_one_slot parsed_one_slot))
                   cs_store 7)) 7)
      = [Some [[(JArr [JStr '' Visit the advising office '', JStr ''Join the ACM chapter''],
                 JArr [])]]]
   \<and> trim '' Visit the advising office '' \<noteq> '' Visit the advising office ''"
proof -
  from cs_run [OF reply_one_slot_match _ normalize_parsed_one_slot,
      of "parse_only reply_one_slot parsed_one_slot"]
  show ?thesis
    by (simp add: parse_only_def stored_roadmaps_def cs_student_def student_def
        finalRoadmap_years)
       (simp add: or_else_def elements_def trim_def is_space_def)
qed

text \<open>
  C5, amended. After a successful synthesis: when the \<open>years\<close> of the parsed response is
  an array, the \<open>years\<close> written is an array of as many years, and in every semester
  object of it (an object among the elements of the \<open>semesters\<close> array of one of these
  years) \<open>activities\<close> and \<open>milestones\<close> are arrays of strings none of which is blank;
  an array may have fewer than two entries, and none, and an entry is stored as it came,
  not trimmed. When the \<open>years\<close> of the response is no array, it is written as it came
  (as the empty array when it is falsy or absent) and nothing in it is normalized.
\<close>

theorem persisted_fields_nonblank_strings:
  assumes "reaches_synthesis w st pid p ci t cd"
    and "jsonMatch (generateText (ai w) (build_prompt t cd p)) = Some json"
    and "JSON_parse (ai w) json = Some parsed"
    and "fst (generateAndSaveRoadmap w st pid) = Inr ()"
  shows "\<exists>d. set (stored_roadmaps (snd (generateAndSaveRoadmap w st pid)) pid) = {Some d}
           \<and> (\<forall>ys. get_prop (JObj parsed) ''years'' = JArr ys \<longrightarrow>
                (\<exists>ys'. get_prop d ''years'' = JArr ys' \<and> length ys' = length ys
                   \<and> (\<forall>y\<in>set ys'. \<forall>s\<in>set (elements (get_prop y ''semesters'')).
                         is_object s \<longrightarrow>
                           nonblank_strings (get_prop s ''activities'')
                           \<and> nonblank_strings (get_prop s ''milestones''))))
           \<and> ((\<forall>ys. get_prop (JObj parsed) ''years'' \<noteq> JArr ys) \<longrightarrow>
                get_prop d ''years'' = or_else (get_prop (JObj parsed) ''years'') (JArr []))"
proof -
  from generateAndSaveRoadmap_success [OF assms] obtain r
    where r: "normalize_parsed parsed = Inr r"
      and stored: "set (stored_roadmaps (snd (generateAndSaveRoadmap w st pid)) pid)
                     = {Some (finalRoadmap r t ci p)}"
    by blast
  let ?d = "finalRoadmap r t ci p"
  have array: "\<exists>ys'. get_prop ?d ''years'' = JArr ys' \<and> length ys' = length ys
                 \<and> (\<forall>y\<in>set ys'. \<forall>s\<in>set (elements (get_prop y ''semesters'')).
                       is_object s \<longrightarrow>
                         nonblank_strings (get_prop s ''activities'')
                         \<and> nonblank_strings (get_prop s ''milestones''))"
    if ys: "get_prop (JObj parsed) ''years'' = JArr ys" for ys
  proof -
    from normalize_parsed_years_kind [OF r] ys
    obtain ys' where ys': "get_prop (JObj r) ''years'' = JArr ys'"
      by auto
    from normalize_parsed_years [OF r]
    have rel: "list_all2 (\<lambda>y y'. normalize_year y = Inr y') ys ys'"
      by (simp only: ys ys' elements_def jsval.case)
    have d: "get_prop ?d ''years'' = JArr ys'"
      by (simp only: finalRoadmap_years ys') (simp add: or_else_def)
    have "nonblank_strings (get_prop s' ''activities'')
          \<and> nonblank_strings (get_prop s' ''milestones'')"
      if y': "y' \<in> set ys'"
        and s': "s' \<in> set (elements (get_prop y' ''semesters''))" and obj: "is_object s'"
      for y' s'
    proof -
      from list_all2_setD2 [OF rel y']
      obtain y where "normalize_year y = Inr y'"
        by blast
      from list_all2_setD2 [OF normalize_year_semesters [OF this] s']
      obtain s where "normalize_semester s = Inr s'"
        by blast
      then show ?thesis
        using obj by (rule normalize_semester_nonblank)
    qed
    with d list_all2_lengthD [OF rel] show ?thesis
      by auto
  qed
  have other: "get_prop ?d ''years'' = or_else (get_prop (JObj parsed) ''years'') (JArr [])"
    if "\<forall>ys. get_prop (JObj parsed) ''years'' \<noteq> JArr ys"
    using normalize_parsed_no_array [OF r that] by (simp only: finalRoadmap_years)
  from stored array other show ?thesis
    by blast
qed

theorem persisted_fields_nonblank_strings_witness:
  "(reaches_synthesis (campus_world reply_one_slot (parse_only reply_one_slot parsed_one_slot))
      cs_store 7 cs_student manoa cs_template ics111_info
    \<and> jsonMatch reply_one_slot = Some reply_one_slot
    \<and> parse_only reply_one_slot parsed_one_slot reply_one_slot = Some parsed_one_slot
    \<and> fst (generateAndSaveRoadmap
             (campus_world reply_one_slot (parse_only reply_one_slot parsed_one_slot)) cs_store 7)
        = Inr ()
    \<and> (\<exists>d ys'. set (stored_roadmaps
                  (snd (generateAndSaveRoadmap
                          (campus_world reply_one_slot (parse_only reply_one_slot parsed_one_slot))
                          cs_store 7)) 7) = {Some d}
           \<and> get_prop d ''years'' = JArr ys' \<and> length ys' = 1
           \<and> map (\<lambda>y. map is_object (elements (get_prop y ''semesters''))) ys' = [[True]]
           \<and> (\<forall>y\<in>set ys'. \<forall>s\<in>set (elements (get_prop y ''semesters'')).
                 is_object s \<longrightarrow>
                   nonblank_strings (get_prop s ''activities'')
                   \<and> nonblank_strings (get_prop s ''milestones''))))
   \<and> (reaches_synthesis
        (campus_world reply_years_object (parse_only reply_years_object parsed_years_object))
        cs_store 7 cs_student manoa cs_template ics111_info
      \<and> jsonMatch reply_years_object = Some reply_years_object
      \<and> parse_only reply_years_object parsed_years_object reply_years_object
          = Some parsed_years_object
      \<and> fst (generateAndSaveRoadmap
               (campus_world reply_years_object
                  (parse_only reply_years_object parsed_years_object)) cs_store 7)
          = Inr ()
      \<and> (\<exists>d. set (stored_roadmaps
                    (snd (generateAndSaveRoadmap
                            (campus_world reply_years_object
                               (parse_only reply_years_object parsed_years_object))
                            cs_store 7)) 7) = {Some d}
             \<and> get_prop d ''years''
                 = JObj [(''semesters'',
                          JArr [JObj [(''activities'', JArr [JStr ''  '', JNum ''7''])]])]))"
proof -
  let ?parse = "parse_only reply_one_slot parsed_one_slot"
  let ?w = "campus_world reply_one_slot ?parse"
  let ?r = "[(''years'',
              JArr [JObj [(''semesters'',
                JArr [JObj [(''courses'', JArr [JObj [(''name'', JStr ''ICS 111'')]]),
                            (''activities'',
                               JArr [JStr '' Visit the advising office '',
                                     JStr ''Join the ACM chapter'']),
                            (''milestones'', JArr [])]])]])]"
  have a: "jsonMatch (generateText (ai ?w) (build_prompt cs_template ics111_info cs_student))
             = Some reply_one_slot"
    by (simp add: campus_world_parts reply_one_slot_match)
  have b: "JSON_parse (ai ?w) reply_one_slot = Some parsed_one_slot"
    by (simp add: campus_world_parts parse_only_def)
  have b': "parse_only reply_one_slot parsed_one_slot reply_one_slot = Some parsed_one_slot"
    by (simp add: parse_only_def)
  from cs_run [OF reply_one_slot_match _ normalize_parsed_one_slot, of ?parse]
  have run: "generateAndSaveRoadmap ?w cs_store 7 =
           (Inr (),
            \<lparr>profile_table =
               [cs_student\<lparr>roadmap := Some (finalRoadmap ?r cs_template manoa cs_student),
                            updatedAt := 20\<rparr>],
             model_calls = 1\<rparr>)"
    by (simp add: parse_only_def)
  then have c: "fst (generateAndSaveRoadmap ?w cs_store 7) = Inr ()"
    by simp
  have years: "get_prop (JObj parsed_one_slot) ''years''
                 = JArr (elements (get_prop (JObj parsed_one_slot) ''years''))"
    "length (elements (get_prop (JObj parsed_one_slot) ''years'')) = 1"
    by (simp_all add: parsed_one_slot_def elements_def)
  from persisted_fields_nonblank_strings [OF cs_reaches_synthesis a b c] years
  obtain d ys' where d: "set (stored_roadmaps (snd (generateAndSaveRoadmap ?w cs_store 7)) 7) = {Some d}"
    and ys': "get_prop d ''years'' = JArr ys'" "length ys' = 1"
    and fields: "\<forall>y\<in>set ys'. \<forall>s\<in>set (elements (get_prop y ''semesters'')).
                 is_object s \<longrightarrow>
                   nonblank_strings (get_prop s ''activities'')
                   \<and> nonblank_strings (get_prop s ''milestones'')"
    by metis
  from run have "stored_roadmaps (snd (generateAndSaveRoadmap ?w cs_store 7)) 7
      = [Some (finalRoadmap ?r cs_template manoa cs_student)]"
    by (simp add: stored_roadmaps_def cs_student_def student_def)
  with d have "d = finalRoadmap ?r cs_template manoa cs_student"
    by simp
  with ys'(1) have shape: "map (\<lambda>y. map is_object (elements (get_prop y ''semesters''))) ys' = [[True]]"
    by (auto simp: finalRoadmap_years or_else_def elements_def)
  from d ys' shape fields
  have first: "\<exists>d ys'. set (stored_roadmaps (snd (generateAndSaveRoadmap ?w cs_store 7)) 7) = {Some d}
           \<and> get_prop d ''years'' = JArr ys' \<and> length ys' = 1
           \<and> map (\<lambda>y. map is_object (elements (get_prop y ''semesters''))) ys' = [[True]]
           \<and> (\<forall>y\<in>set ys'. \<forall>s\<in>set (elements (get_prop y ''semesters'')).
                 is_object s \<longrightarrow>
                   nonblank_strings (get_prop s ''activities'')
                   \<and> nonblank_strings (get_prop s ''milestones''))"
    by (intro exI [of _ d] exI [of _ ys'] conjI)
  let ?parse2 = "parse_only reply_years_object parsed_years_object"
  let ?w2 = "campus_world reply_years_object ?parse2"
  have a2: "jsonMatch (generateText (ai ?w2) (build_prompt cs_template ics111_info cs_student))
             = Some reply_years_object"
    by (simp add: campus_world_parts reply_years_object_match)
  have b2: "JSON_parse (ai ?w2) reply_years_object = Some parsed_years_object"
    by (simp add: campus_world_parts parse_only_def)
  have b2': "parse_only reply_years_object parsed_years_object reply_years_object
               = Some parsed_years_object"
    by (simp add: parse_only_def)
  from cs_run [OF reply_years_object_match _ normalize_parsed_years_object, of ?parse2]
  have c2: "fst (generateAndSaveRoadmap ?w2 cs_store 7) = Inr ()"
    by (simp add: parse_only_def)
  have no_array: "\<forall>ys. get_prop (JObj parsed_years_object) ''years'' \<noteq> JArr ys"
    by (simp add: parsed_years_object_def)
  have verbatim: "or_else (get_prop (JObj parsed_years_object) ''years'') (JArr [])
                    = JObj [(''semesters'',
                             JArr [JObj [(''activities'', JArr [JStr ''  '', JNum ''7''])]])]"
    by (simp add: parsed_years_object_def or_else_def)
  from persisted_fields_nonblank_strings [OF cs_reaches_synthesis a2 b2 c2] no_array
  have second: "\<exists>d. set (stored_roadmaps (snd (generateAndSaveRoadmap ?w2 cs_store 7)) 7) = {Some d}
             \<and> get_prop d ''years''
                 = JObj [(''semesters'',
                          JArr [JObj [(''activities'', JArr [JStr ''  '', JNum ''7''])]])]"
    unfolding verbatim [symmetric] by blast
  from cs_reaches_synthesis [of reply_one_slot ?parse] reply_one_slot_match b' c first
    cs_reaches_synthesis [of reply_years_object ?parse2] reply_years_object_match b2' c2 second
  show ?thesis
    by (intro conjI)
qed

lemma reply_number_semester_match:
  "jsonMatch reply_number_semester = Some reply_number_semester"
  by (simp add: jsonMatch_def reply_number_semester_def)

lemma reply_unprintable_entry_match:
  "jsonMatch reply_unprintable_entry = Some reply_unprintable_entry"
  by (simp add: jsonMatch_def reply_unprintable_entry_def)

lemma reply_mixed_entries_match: "jsonMatch reply_mixed_entries = Some reply_mixed_entries"
  by (simp add: jsonMatch_def reply_mixed_entries_def)

lemmas normalization_defs =
  normalize_parsed_def normalize_year_def semesters_of_def normalize_semester_def
  normalized_or_empty_def normalizeStringArray_def entry_string_def

text \<open>
  C7 as stated fails, in two ways. Both replies have an array as \<open>years\<close>. In the first
  the second semester is the number 5: the loop throws a TypeError on it and no field is
  normalized, the \<open>activities\<close> of the first semester neither. In the second the
  \<open>activities\<close> hold a bare string and an object with a \<open>toString\<close> entry: \<open>String\<close>
  throws on the object, and the field becomes the empty list, the bare string lost.
\<close>

theorem semester_fields_thrown_or_emptied:
  "get_prop (JObj parsed_number_semester) ''years''
     = JArr [JObj [(''semesters'', JArr [JObj [(''activities'', JArr [JStr ''a''])], JNum ''5''])]]
   \<and> processPathwayWithAI
        \<lparr>generateText = (\<lambda>p. reply_number_semester),
         JSON_parse = parse_only reply_number_semester parsed_number_semester\<rparr>
        cs_template ics111_info cs_student
      = Inl TypeError
   \<and> get_prop (JObj parsed_unprintable_entry) ''years''
      = JArr [JObj [(''semesters'',
           JArr [JObj [(''activities'',
                         JArr [JStr ''Join a club'', JObj [(''toString'', JNum ''1'')]])]])]]
   \<and> processPathwayWithAI
        \<lparr>generateText = (\<lambda>p. reply_unprintable_entry),
         JSON_parse = parse_only reply_unprintable_entry parsed_unprintable_entry\<rparr>
        cs_template ics111_info cs_student
      = Inr [(''years'',
              JArr [JObj [(''semesters'',
                JArr [JObj [(''activities'', JArr []), (''milestones'', JArr [])]])]])]"
  by (simp add: processPathwayWithAI_def reply_number_semester_match
      reply_unprintable_entry_match parse_only_def)
     (simp add: parsed_number_semester_def parsed_unprintable_entry_def normalization_defs)

text \<open>
  C7, amended. For every parsed response whose \<open>years\<close> is an array: when every year is
  an object whose \<open>semesters\<close>, if it has any, is an array of objects, the normalization
  returns without an error, whatever the \<open>activities\<close> and \<open>milestones\<close> hold or lack
  (on other trees it may throw a TypeError, and then nothing is normalized); and whenever
  it returns, each semester object has as \<open>activities\<close> and as \<open>milestones\<close> the
  normalization of the field it had: when the field is an array and every entry of it
  has a string, bare strings kept, objects with a string \<open>text\<close> replaced by that text,
  other entries stringified, blank results dropped; and the empty list when the field is
  absent, is no array, or holds an entry on which \<open>String\<close> throws.
\<close>

theorem semester_fields_normalized:
  assumes "jsonMatch (generateText syn (build_prompt t cd p)) = Some json"
    and "JSON_parse syn json = Some parsed"
    and "get_prop (JObj parsed) ''years'' = JArr ys"
  shows "(list_all plain_year ys \<longrightarrow> (\<exists>r. processPathwayWithAI syn t cd p = Inr r))
         \<and> (\<forall>r. processPathwayWithAI syn t cd p = Inr r \<longrightarrow>
               (\<exists>ys'. get_prop (JObj r) ''years'' = JArr ys'
                  \<and> list_all2 semesters_normalized ys ys'))"
proof -
  from assms(1,2) have proc: "processPathwayWithAI syn t cd p = normalize_parsed parsed"
    by (simp add: processPathwayWithAI_def)
  have "\<exists>ys'. get_prop (JObj r) ''years'' = JArr ys' \<and> list_all2 semesters_normalized ys ys'"
    if r: "normalize_parsed parsed = Inr r" for r
  proof -
    from normalize_parsed_years_kind [OF r] assms(3)
    obtain ys' where ys': "get_prop (JObj r) ''years'' = JArr ys'"
      by auto
    from normalize_parsed_years [OF r]
    have "list_all2 (\<lambda>y y'. normalize_year y = Inr y') ys ys'"
      by (simp only: assms(3) ys' elements_def jsval.case)
    then have "list_all2 semesters_normalized ys ys'"
      by (rule list_all2_weaken) (rule normalize_year_spec)
    with ys' show ?thesis
      by blast
  qed
  with proc plain_years_return [OF assms(3)] show ?thesis
    by simp
qed

text \<open>The normalization on some fields.\<close>

lemma normalized_field_examples:
  "normalized_field
     (JArr [JNum ''3'', JNull, JBool True, JArr [JStr ''a'', JNull, JNum ''1''], JObj [],
            JStr ''Join a club'', JObj [(''text'', JStr ''Meet an advisor'')], JStr ''  ''])
     = [''3'', ''null'', ''true'', ''a,,1'', ''[object Object]'', ''Join a club'',
        ''Meet an advisor'']"
  "normalized_field (JArr [JStr ''Join a club'', JObj [(''toString'', JNum ''1'')]]) = []"
  "normalized_field JUndefined = []"
  "normalized_field (JStr ''none'') = []"
  by (simp_all add: normalized_field_def coerced_def trim_def is_space_def)

theorem semester_fields_normalized_witness:
  "jsonMatch reply_mixed_entries = Some reply_mixed_entries
   \<and> parse_only reply_mixed_entries parsed_mixed_entries reply_mixed_entries
       = Some parsed_mixed_entries
   \<and> get_prop (JObj parsed_mixed_entries) ''years''
       = JArr (elements (get_prop (JObj parsed_mixed_entries) ''years''))
   \<and> list_all plain_year (elements (get_prop (JObj parsed_mixed_entries) ''years''))
   \<and> (\<exists>r ys'.
         processPathwayWithAI
           \<lparr>generateText = (\<lambda>p. reply_mixed_entries),
            JSON_parse = parse_only reply_mixed_entries parsed_mixed_entries\<rparr>
           cs_template ics111_info cs_student = Inr r
         \<and> get_prop (JObj r) ''years'' = JArr ys'
         \<and> map (\<lambda>y. map (\<lambda>s. (get_prop s ''activities'', get_prop s ''milestones''))
                       (elements (get_prop y ''semesters''))) ys'
             = [[(JArr [JStr ''3'', JStr ''null'', JStr ''true'', JStr ''a,,1'',
                        JStr ''[object Object]'', JStr ''Join a club'',
                        JStr ''Meet an advisor''],
                  JArr [])]])"
proof -
  let ?syn = "\<lparr>generateText = (\<lambda>p. reply_mixed_entries),
                JSON_parse = parse_only reply_mixed_entries parsed_mixed_entries\<rparr>"
  let ?s = "JObj [(''activities'',
                     JArr [JNum ''3'', JNull, JBool True,
                           JArr [JStr ''a'', JNull, JNum ''1''], JObj [],
                           JStr ''Join a club'', JObj [(''text'', JStr ''Meet an advisor'')],
                           JStr ''  '']),
                  (''milestones'', JStr ''none'')]"
  let ?y = "JObj [(''semesters'', JArr [?s])]"
  have a: "jsonMatch (generateText ?syn (build_prompt cs_template ics111_info cs_student))
             = Some reply_mixed_entries"
    by (simp add: reply_mixed_entries_match)
  have b: "JSON_parse ?syn reply_mixed_entries = Some parsed_mixed_entries"
    by (simp add: parse_only_def)
  have b': "parse_only reply_mixed_entries parsed_mixed_entries reply_mixed_entries
              = Some parsed_mixed_entries"
    by (simp add: parse_only_def)
  have el: "elements (get_prop (JObj parsed_mixed_entries) ''years'') = [?y]"
    by (simp add: parsed_mixed_entries_def elements_def)
  have c: "get_prop (JObj parsed_mixed_entries) ''years''
             = JArr (elements (get_prop (JObj parsed_mixed_entries) ''years''))"
    by (simp add: parsed_mixed_entries_def elements_def)
  have plain: "list_all plain_year (elements (get_prop (JObj parsed_mixed_entries) ''years''))"
    by (simp add: parsed_mixed_entries_def elements_def plain_year_def)
  from semester_fields_normalized [OF a b c] plain
  obtain r ys' where r: "processPathwayWithAI ?syn cs_template ics111_info cs_student = Inr r"
    and ys': "get_prop (JObj r) ''years'' = JArr ys'"
    and rel: "list_all2 semesters_normalized [?y] ys'"
    unfolding el by blast
  from rel obtain y' where y': "ys' = [y']" "semesters_normalized ?y y'"
    by (auto simp: list_all2_Cons1)
  from y'(2) have "list_all2 fields_normalized [?s] (elements (get_prop y' ''semesters''))"
    by (simp add: semesters_normalized_def elements_def)
  then obtain s' where s': "elements (get_prop y' ''semesters'') = [s']" "fields_normalized ?s s'"
    by (auto simp: list_all2_Cons1)
  from s'(2) have "get_prop s' ''activities''
      = JArr [JStr ''3'', JStr ''null'', JStr ''true'', JStr ''a,,1'',
              JStr ''[object Object]'', JStr ''Join a club'', JStr ''Meet an advisor'']"
    "get_prop s' ''milestones'' = JArr []"
    by (simp_all add: fields_normalized_def normalized_field_examples)
  with y'(1) s'(1)
  have "map (\<lambda>y. map (\<lambda>s. (get_prop s ''activities'', get_prop s ''milestones''))
                       (elements (get_prop y ''semesters''))) ys'
             = [[(JArr [JStr ''3'', JStr ''null'', JStr ''true'', JStr ''a,,1'',
                        JStr ''[object Object]'', JStr ''Join a club'',
                        JStr ''Meet an advisor''],
                  JArr [])]]"
    by simp
  with r ys'
  have "\<exists>r ys'.
         processPathwayWithAI ?syn cs_template ics111_info cs_student = Inr r
         \<and> get_prop (JObj r) ''years'' = JArr ys'
         \<and> map (\<lambda>y. map (\<lambda>s. (get_prop s ''activities'', get_prop s ''milestones''))
                       (elements (get_prop y ''semesters''))) ys'
             = [[(JArr [JStr ''3'', JStr ''null'', JStr ''true'', JStr ''a,,1'',
                        JStr ''[object Object]'', JStr ''Join a club'',
                        JStr ''Meet an advisor''],
                  JArr [])]]"
    by (intro exI [of _ r] exI [of _ ys'] conjI)
  with reply_mixed_entries_match b' c plain show ?thesis
    by (intro conjI)
qed


end
